theory Spec2Isabelle
  imports Main
begin

section \<open>Python values and exceptions\<close>

text \<open>
  The exceptions that the methods of \<^verbatim>\<open>CassandraCluster\<close> can raise by themselves.
  \<open>AttributeError\<close> carries the attribute that was looked up on \<^verbatim>\<open>None\<close>,
  \<open>KeyError\<close> the missing dictionary key, \<open>ValueError\<close> its message.
\<close>

datatype error =
    AttributeError string
  | KeyError "string option"
  | ValueError string

text \<open>
  A value that is \<^verbatim>\<open>None\<close> or a \<^verbatim>\<open>str\<close> is a \<open>string option\<close>. Python's truth test
  on it: \<^verbatim>\<open>None\<close> and the empty string are false. \<open>py_or a b\<close> is \<^verbatim>\<open>a or b\<close>.
\<close>

definition truthy :: "string option \<Rightarrow> bool" where
  "truthy v = (case v of None \<Rightarrow> False | Some x \<Rightarrow> x \<noteq> [])"

definition py_or :: "string option \<Rightarrow> string option \<Rightarrow> string option" where
  "py_or a b = (if truthy a then a else b)"

text \<open>
  A consistency level is \<^verbatim>\<open>None\<close> or one of the driver's integer constants; the truth
  test of Python on an integer is \<open>\<noteq> 0\<close>.
\<close>

definition truthy_level :: "int option \<Rightarrow> bool" where
  "truthy_level v = (case v of None \<Rightarrow> False | Some n \<Rightarrow> n \<noteq> 0)"

section \<open>The Cassandra driver\<close>

text \<open>
  The driver (\<^verbatim>\<open>cassandra.cluster.Cluster\<close>, \<^verbatim>\<open>cassandra.auth.PlainTextAuthProvider\<close>)
  is an external library. It is modelled as an object store: every constructor and every
  method that returns an object allocates a new identity \<open>next_id\<close> and records what it
  was called with, so that two calls never return the same object.
\<close>

datatype auth = PlainTextAuthProvider "string option" "string option"

record cluster_obj =
  contact_points :: "string list"
  cluster_port :: int
  auth_provider :: "auth option"
  is_shutdown :: bool

record session_obj =
  session_cluster :: nat
  session_keyspace :: string
  session_default_consistency_level :: "int option"

text \<open>
  What \<^verbatim>\<open>Session.execute\<close> receives as its first argument: a prepared statement, or a
  dictionary from query names to prepared statements.
\<close>

datatype query_arg = Statement nat | StatementTable "string \<rightharpoonup> nat"

record driver =
  next_id :: nat
  clusters :: "nat \<rightharpoonup> cluster_obj"
  sessions :: "nat \<rightharpoonup> session_obj"
  statements :: "nat \<rightharpoonup> nat \<times> string"
  executed :: "(nat \<times> query_arg \<times> string list \<times> nat) list"

definition Cluster :: "string list \<Rightarrow> int \<Rightarrow> driver \<Rightarrow> nat \<times> driver" where
  "Cluster ns p d =
     (next_id d,
      d\<lparr>next_id := Suc (next_id d),
        clusters := (clusters d)(next_id d \<mapsto>
          \<lparr>contact_points = ns, cluster_port = p, auth_provider = None, is_shutdown = False\<rparr>)\<rparr>)"

definition set_auth_provider :: "nat \<Rightarrow> auth \<Rightarrow> driver \<Rightarrow> driver" where
  "set_auth_provider c a d =
     (case clusters d c of
        None \<Rightarrow> d
      | Some co \<Rightarrow> d\<lparr>clusters := (clusters d)(c \<mapsto> co\<lparr>auth_provider := Some a\<rparr>)\<rparr>)"

definition cluster_connect :: "nat \<Rightarrow> string \<Rightarrow> driver \<Rightarrow> nat \<times> driver" where
  "cluster_connect c k d =
     (next_id d,
      d\<lparr>next_id := Suc (next_id d),
        sessions := (sessions d)(next_id d \<mapsto>
          \<lparr>session_cluster = c, session_keyspace = k,
           session_default_consistency_level = None\<rparr>)\<rparr>)"

definition set_default_consistency_level :: "nat \<Rightarrow> int option \<Rightarrow> driver \<Rightarrow> driver" where
  "set_default_consistency_level sid level d =
     (case sessions d sid of
        None \<Rightarrow> d
      | Some so \<Rightarrow>
          d\<lparr>sessions := (sessions d)(sid \<mapsto> so\<lparr>session_default_consistency_level := level\<rparr>)\<rparr>)"

definition session_prepare :: "nat \<Rightarrow> string \<Rightarrow> driver \<Rightarrow> nat \<times> driver" where
  "session_prepare sid q d =
     (next_id d,
      d\<lparr>next_id := Suc (next_id d), statements := (statements d)(next_id d \<mapsto> (sid, q))\<rparr>)"

definition session_execute ::
  "nat \<Rightarrow> query_arg \<Rightarrow> string list \<Rightarrow> driver \<Rightarrow> nat \<times> driver" where
  "session_execute sid qa params d =
     (next_id d,
      d\<lparr>next_id := Suc (next_id d), executed := executed d @ [(sid, qa, params, next_id d)]\<rparr>)"

definition cluster_shutdown :: "nat \<Rightarrow> driver \<Rightarrow> driver" where
  "cluster_shutdown c d =
     (case clusters d c of
        None \<Rightarrow> d
      | Some co \<Rightarrow> d\<lparr>clusters := (clusters d)(c \<mapsto> co\<lparr>is_shutdown := True\<rparr>)\<rparr>)"

section \<open>The Flask application and its context stack\<close>

text \<open>
  \<^verbatim>\<open>app.config\<close> holds the six keys that \<^verbatim>\<open>init_app\<close> reads; the outer \<open>option\<close> of a
  field says whether the key is present. \<^verbatim>\<open>CASSANDRA_NODES\<close> is a string or a list of
  strings. \<open>setdefault cur d\<close> is the value under the key after
  \<^verbatim>\<open>config.setdefault(key, d)\<close>.
\<close>

datatype nodes_value = NodesStr string | NodesList "string list"

record config =
  CASSANDRA_CONSISTENCY_LEVEL :: "int option option"
  CASSANDRA_NODES :: "nodes_value option"
  CASSANDRA_PORT :: "int option"
  CASSANDRA_USER :: "string option option"
  CASSANDRA_PASSWORD :: "string option option"
  CASSANDRA_KEYSPACE :: "string option option"

definition setdefault :: "'a option \<Rightarrow> 'a \<Rightarrow> 'a" where
  "setdefault cur d = (case cur of None \<Rightarrow> d | Some v \<Rightarrow> v)"

text \<open>
  Of the application: its configuration, the node lists that \<^verbatim>\<open>logger.debug\<close> was
  called with, whether it has \<^verbatim>\<open>teardown_appcontext\<close>, and how often the manager's
  \<^verbatim>\<open>teardown\<close> was registered with either hook.
\<close>

record flask_app =
  config :: config
  logger_debug :: "string list list"
  has_teardown_appcontext :: bool
  teardown_appcontext_funcs :: nat
  teardown_request_funcs :: nat

text \<open>
  A context object has the attribute \<^verbatim>\<open>cassandra_cluster\<close> or not (outer \<open>option\<close>);
  its value is \<^verbatim>\<open>None\<close> or a driver cluster (inner \<open>option\<close>).
\<close>

record app_ctx =
  cassandra_cluster :: "nat option option"

section \<open>The manager object and the program state\<close>

text \<open>
  The attributes of a \<^verbatim>\<open>CassandraCluster\<close>. The private attributes keep their mangled
  names: \<^verbatim>\<open>__session\<close> (written by \<^verbatim>\<open>__init__\<close>, used by \<^verbatim>\<open>connect\<close>) and
  \<^verbatim>\<open>__sessions\<close> (written by \<^verbatim>\<open>init_app\<close> only, absent before) are two attributes.
  \<^verbatim>\<open>__queries\<close> is keyed by the keyspace, which may be \<^verbatim>\<open>None\<close>.
\<close>

record CassandraCluster =
  app :: "nat option"
  cluster :: "nat option"
  CassandraCluster__primary_session :: "nat option"
  CassandraCluster__session :: "string \<rightharpoonup> nat"
  CassandraCluster__sessions :: "(string \<rightharpoonup> nat) option"
  CassandraCluster__queries :: "string option \<rightharpoonup> (string \<rightharpoonup> nat)"
  nodes :: "string list"
  port :: int
  user :: "string option"
  password :: "string option"
  keyspace :: "string option"
  default_consistency_level :: "int option"

text \<open>
  The state: the manager \<open>self\<close>, the driver's objects, the applications (by
  reference) and Flask's context stack, its top first.
\<close>

record state =
  self :: CassandraCluster
  driver :: driver
  apps :: "nat \<Rightarrow> flask_app"
  stack :: "app_ctx list"

section \<open>The methods of CassandraCluster\<close>

text \<open>
  Every method takes the state and returns its result, or the exception it raised, with
  the state as it is then: what a method wrote before it raised stays written.
  \<^verbatim>\<open>__repr__\<close>, which only formats the configuration, is left out.
\<close>

definition connect ::
  "string option \<Rightarrow> int option \<Rightarrow> state \<Rightarrow> (error + nat option) \<times> state" where
  "connect ks_arg level s =
     (let ks = py_or ks_arg (keyspace (self s));
          s1 = (case cluster (self s) of
                  Some c \<Rightarrow> s
                | None \<Rightarrow>
                    (let (c, d) = Cluster (nodes (self s)) (port (self s)) (driver s);
                         d' = (if truthy (user (self s)) \<and> truthy (password (self s))
                               then set_auth_provider c
                                      (PlainTextAuthProvider (user (self s)) (password (self s))) d
                               else d)
                     in s\<lparr>self := (self s)\<lparr>cluster := Some c\<rparr>, driver := d'\<rparr>))
      in case ks of
           None \<Rightarrow> (Inr None, s1)
         | Some k \<Rightarrow>
             if k = [] then (Inr None, s1)
             else
               (case CassandraCluster__session (self s1) k of
                  Some sid \<Rightarrow> (Inr (Some sid), s1)
                | None \<Rightarrow>
                    (case app (self s1) of
                       None \<Rightarrow> (Inl (AttributeError ''logger''), s1)
                     | Some a \<Rightarrow>
                         (let s2 = s1\<lparr>apps := (apps s1)
                                     (a := (apps s1 a)\<lparr>logger_debug :=
                                        logger_debug (apps s1 a) @ [nodes (self s1)]\<rparr>)\<rparr>
                          in case cluster (self s2) of
                               None \<Rightarrow> (Inl (AttributeError ''connect''), s2)
                             | Some c \<Rightarrow>
                                 (let (sid, d) = cluster_connect c k (driver s2);
                                      s3 = s2\<lparr>driver := d,
                                              self := (self s2)\<lparr>CassandraCluster__session :=
                                                (CassandraCluster__session (self s2))(k \<mapsto> sid)\<rparr>\<rparr>;
                                      s4 = (if truthy_level level
                                            then s3\<lparr>driver :=
                                                   set_default_consistency_level sid level (driver s3)\<rparr>
                                            else s3)
                                  in (Inr (Some sid), s4))))))"

definition session :: "state \<Rightarrow> (error + nat option) \<times> state" where
  "session s = connect (keyspace (self s)) None s"

definition get_session :: "string option \<Rightarrow> state \<Rightarrow> (error + nat option) \<times> state" where
  "get_session ks s = connect ks None s"

definition prepare_query ::
  "string \<Rightarrow> string \<Rightarrow> string option \<Rightarrow> bool \<Rightarrow> state \<Rightarrow> (error + nat) \<times> state" where
  "prepare_query query_name query ks_arg force s =
     (let ks = py_or ks_arg (keyspace (self s)) in
      case connect ks None s of
        (Inl e, s1) \<Rightarrow> (Inl e, s1)
      | (Inr sess, s1) \<Rightarrow>
          (let s2 = (if CassandraCluster__queries (self s1) ks = None
                     then s1\<lparr>self := (self s1)\<lparr>CassandraCluster__queries :=
                            (CassandraCluster__queries (self s1))(ks \<mapsto> Map.empty)\<rparr>\<rparr>
                     else s1)
           in case CassandraCluster__queries (self s2) ks of
                None \<Rightarrow> (Inl (KeyError ks), s2)
              | Some tbl \<Rightarrow>
                  if force \<or> tbl query_name = None then
                    (case sess of
                       None \<Rightarrow> (Inl (AttributeError ''prepare''), s2)
                     | Some sid \<Rightarrow>
                         (let (st, d) = session_prepare sid query (driver s2)
                          in (Inr st,
                              s2\<lparr>driver := d,
                                 self := (self s2)\<lparr>CassandraCluster__queries :=
                                   (CassandraCluster__queries (self s2))
                                     (ks \<mapsto> tbl(query_name \<mapsto> st))\<rparr>\<rparr>)))
                  else
                    (case tbl query_name of
                       None \<Rightarrow> (Inl (KeyError (Some query_name)), s2)
                     | Some st \<Rightarrow> (Inr st, s2))))"

text \<open>
  The message of the \<^verbatim>\<open>ValueError\<close> of \<^verbatim>\<open>execute_prepared\<close>, with the query name
  between double quotes (character \<open>0x22\<close>).
\<close>

definition no_query_message :: "string \<Rightarrow> string" where
  "no_query_message query_name =
     ''No query prepared with name '' @ [CHR 0x22] @ query_name @ [CHR 0x22]
       @ '' and query is not specified.''"

definition execute_prepared ::
  "string \<Rightarrow> string option \<Rightarrow> string option \<Rightarrow> string list \<Rightarrow> state
     \<Rightarrow> (error + nat) \<times> state" where
  "execute_prepared query_name ks_arg query params s =
     (let ks = py_or ks_arg (keyspace (self s)) in
      case connect ks None s of
        (Inl e, s1) \<Rightarrow> (Inl e, s1)
      | (Inr sess, s1) \<Rightarrow>
          (let s2 = (if CassandraCluster__queries (self s1) ks = None
                     then s1\<lparr>self := (self s1)\<lparr>CassandraCluster__queries :=
                            (CassandraCluster__queries (self s1))(ks \<mapsto> Map.empty)\<rparr>\<rparr>
                     else s1)
           in case CassandraCluster__queries (self s2) ks of
                None \<Rightarrow> (Inl (KeyError ks), s2)
              | Some tbl \<Rightarrow>
                  (case (if tbl query_name = None then
                           (case query of
                              None \<Rightarrow> (Inl (ValueError (no_query_message query_name)), s2)
                            | Some q \<Rightarrow>
                                (case prepare_query query_name q ks False s2 of
                                   (Inl e, s3) \<Rightarrow> (Inl e, s3)
                                 | (Inr st, s3) \<Rightarrow> (Inr (), s3)))
                         else (Inr (), s2)) of
                     (Inl e, s3) \<Rightarrow> (Inl e, s3)
                   | (Inr u, s3) \<Rightarrow>
                       (case sess of
                          None \<Rightarrow> (Inl (AttributeError ''execute''), s3)
                        | Some sid \<Rightarrow>
                            (case CassandraCluster__queries (self s3) (Some query_name) of
                               None \<Rightarrow> (Inl (KeyError (Some query_name)), s3)
                             | Some t \<Rightarrow>
                                 (let (r, d) = session_execute sid (StatementTable t) params
                                                 (driver s3)
                                  in (Inr r, s3\<lparr>driver := d\<rparr>)))))))"

definition teardown :: "error option \<Rightarrow> state \<Rightarrow> (error + unit) \<times> state" where
  "teardown exception s =
     (case stack s of
        [] \<Rightarrow> (Inr (), s)
      | ctx # rest \<Rightarrow>
          (case cassandra_cluster ctx of
             None \<Rightarrow> (Inr (), s)
           | Some None \<Rightarrow> (Inl (AttributeError ''shutdown''), s)
           | Some (Some c) \<Rightarrow> (Inr (), s\<lparr>driver := cluster_shutdown c (driver s)\<rparr>)))"

definition connection :: "state \<Rightarrow> (error + nat option) \<times> state" where
  "connection s =
     (case stack s of
        [] \<Rightarrow> (Inr None, s)
      | ctx # rest \<Rightarrow>
          (case cassandra_cluster ctx of
             Some v \<Rightarrow> (Inr v, s)
           | None \<Rightarrow>
               (case connect None None s of
                  (Inl e, s1) \<Rightarrow> (Inl e, s1)
                | (Inr r, s1) \<Rightarrow>
                    (Inr (cluster (self s1)),
                     s1\<lparr>stack := ctx\<lparr>cassandra_cluster := Some (cluster (self s1))\<rparr> # rest\<rparr>))))"

definition init_app :: "nat \<Rightarrow> state \<Rightarrow> (error + unit) \<times> state" where
  "init_app a s =
     (let cfg = config (apps s a);
          level = setdefault (CASSANDRA_CONSISTENCY_LEVEL cfg) None;
          nodes_v = setdefault (CASSANDRA_NODES cfg) (NodesList [''localhost'']);
          port_v = setdefault (CASSANDRA_PORT cfg) 9042;
          user_v = setdefault (CASSANDRA_USER cfg) None;
          password_v = setdefault (CASSANDRA_PASSWORD cfg) None;
          keyspace_v = setdefault (CASSANDRA_KEYSPACE cfg) None;
          nodes_l = (case nodes_v of NodesStr x \<Rightarrow> [x] | NodesList l \<Rightarrow> l);
          cfg' = \<lparr>CASSANDRA_CONSISTENCY_LEVEL = Some level,
                  CASSANDRA_NODES = Some (NodesList nodes_l),
                  CASSANDRA_PORT = Some port_v,
                  CASSANDRA_USER = Some user_v,
                  CASSANDRA_PASSWORD = Some password_v,
                  CASSANDRA_KEYSPACE = Some keyspace_v\<rparr>;
          s1 = s\<lparr>apps := (apps s)(a := (apps s a)\<lparr>config := cfg'\<rparr>),
                 self := (self s)\<lparr>app := Some a,
                   nodes := nodes_l,
                   port := port_v,
                   user := user_v,
                   password := password_v,
                   keyspace := keyspace_v,
                   default_consistency_level := level,
                   CassandraCluster__sessions := Some Map.empty,
                   CassandraCluster__queries := Map.empty,
                   cluster := None\<rparr>\<rparr>;
          register = (\<lambda>t. t\<lparr>apps := (apps t)(a :=
                        (if has_teardown_appcontext (apps t a)
                         then (apps t a)\<lparr>teardown_appcontext_funcs :=
                                Suc (teardown_appcontext_funcs (apps t a))\<rparr>
                         else (apps t a)\<lparr>teardown_request_funcs :=
                                Suc (teardown_request_funcs (apps t a))\<rparr>))\<rparr>)
      in case stack s1 of
           [] \<Rightarrow> (Inr (), register s1)
         | ctx # rest \<Rightarrow>
             (case cassandra_cluster ctx of
                None \<Rightarrow> (Inr (), register s1)
              | Some None \<Rightarrow> (Inl (AttributeError ''shutdown''), s1)
              | Some (Some c) \<Rightarrow>
                  (Inr (), register (s1\<lparr>driver := cluster_shutdown c (driver s1)\<rparr>))))"

definition CassandraCluster_init :: "nat option \<Rightarrow> state \<Rightarrow> (error + unit) \<times> state" where
  "CassandraCluster_init app_arg s =
     (let s0 = s\<lparr>self :=
                 \<lparr>app = app_arg,
                  cluster = None,
                  CassandraCluster__primary_session = None,
                  CassandraCluster__session = Map.empty,
                  CassandraCluster__sessions = None,
                  CassandraCluster__queries = Map.empty,
                  nodes = [],
                  port = 9042,
                  user = None,
                  password = None,
                  keyspace = None,
                  default_consistency_level = None\<rparr>\<rparr>
      in case app_arg of
           None \<Rightarrow> (Inr (), s0)
         | Some a \<Rightarrow> init_app a s0)"

section \<open>Observations and invariants\<close>

text \<open>
  The prepared statement that \<^verbatim>\<open>self.__queries[keyspace][query_name]\<close> finds, if the
  table of the keyspace exists and holds the name.
\<close>

definition cached_statement :: "state \<Rightarrow> string option \<Rightarrow> string \<Rightarrow> nat option" where
  "cached_statement s ks n =
     (case CassandraCluster__queries (self s) ks of None \<Rightarrow> None | Some tbl \<Rightarrow> tbl n)"

text \<open>
  The two lines \<^verbatim>\<open>if keyspace not in self.__queries: self.__queries[keyspace] = {}\<close>
  that \<^verbatim>\<open>prepare_query\<close> and \<^verbatim>\<open>execute_prepared\<close> share, as a state transformer
  for the proofs.
\<close>

definition ensure_table :: "string option \<Rightarrow> state \<Rightarrow> state" where
  "ensure_table ks s =
     (if CassandraCluster__queries (self s) ks = None
      then s\<lparr>self := (self s)\<lparr>CassandraCluster__queries :=
             (CassandraCluster__queries (self s))(ks \<mapsto> Map.empty)\<rparr>\<rparr>
      else s)"

text \<open>
  The invariant of the session cache: a cached session is cached under a non-empty
  keyspace, is an object the driver has handed out, and is bound to the keyspace it is
  cached under.
\<close>

definition cache_ok :: "state \<Rightarrow> bool" where
  "cache_ok s \<longleftrightarrow>
     (\<forall>k sid. CassandraCluster__session (self s) k = Some sid \<longrightarrow>
        k \<noteq> [] \<and> sid < next_id (driver s) \<and>
        (\<exists>so. sessions (driver s) sid = Some so \<and> session_keyspace so = k))"

section \<open>Example applications and states\<close>

text \<open>
  A configuration with no key set, and a new application with a given configuration
  (\<^verbatim>\<open>Flask('test_app')\<close> of the test suite).
\<close>

definition no_config :: config where
  "no_config =
     \<lparr>CASSANDRA_CONSISTENCY_LEVEL = None, CASSANDRA_NODES = None, CASSANDRA_PORT = None,
      CASSANDRA_USER = None, CASSANDRA_PASSWORD = None, CASSANDRA_KEYSPACE = None\<rparr>"

definition Flask :: "config \<Rightarrow> flask_app" where
  "Flask cfg =
     \<lparr>config = cfg, logger_debug = [], has_teardown_appcontext = True,
      teardown_appcontext_funcs = 0, teardown_request_funcs = 0\<rparr>"

text \<open>
  Application 2 gives its node as one string, with credentials and a port, as
  \<^verbatim>\<open>test_connect\<close> does; application 3 has a user and an empty password; application 4
  gives a list of nodes; every other application has no key set.
\<close>

definition example_apps :: "nat \<Rightarrow> flask_app" where
  "example_apps =
     (\<lambda>a. Flask no_config)
       (2 := Flask (no_config\<lparr>CASSANDRA_NODES := Some (NodesStr ''cassandra.example.com''),
                              CASSANDRA_PORT := Some 1234,
                              CASSANDRA_USER := Some (Some ''username''),
                              CASSANDRA_PASSWORD := Some (Some ''password'')\<rparr>),
        3 := Flask (no_config\<lparr>CASSANDRA_USER := Some (Some ''u''),
                              CASSANDRA_PASSWORD := Some (Some [])\<rparr>),
        4 := Flask (no_config\<lparr>CASSANDRA_NODES :=
                                Some (NodesList [''cassandra.example.org''])\<rparr>))"

text \<open>
  The state before any manager is constructed: a driver that has created nothing, no
  active context. \<open>bound a\<close> is the state after \<^verbatim>\<open>CassandraCluster(app=a)\<close>,
  \<open>unbound\<close> the state after \<^verbatim>\<open>CassandraCluster()\<close>.
\<close>

definition start :: state where
  "start =
     \<lparr>self = \<lparr>app = None, cluster = None, CassandraCluster__primary_session = None,
              CassandraCluster__session = Map.empty, CassandraCluster__sessions = None,
              CassandraCluster__queries = Map.empty, nodes = [], port = 9042, user = None,
              password = None, keyspace = None, default_consistency_level = None\<rparr>,
      driver = \<lparr>next_id = 0, clusters = Map.empty, sessions = Map.empty,
                statements = Map.empty, executed = []\<rparr>,
      apps = example_apps,
      stack = []\<rparr>"

definition bound :: "nat \<Rightarrow> state" where
  "bound a = snd (CassandraCluster_init (Some a) start)"

definition unbound :: state where
  "unbound = snd (CassandraCluster_init None start)"

text \<open>
  The states after \<^verbatim>\<open>m = CassandraCluster(app0); m.connect('ks')\<close> and after a
  following \<^verbatim>\<open>m.init_app(a)\<close>.
\<close>

definition connected :: state where
  "connected = snd (connect (Some ''ks'') None (bound 0))"

definition rebound :: "nat \<Rightarrow> state" where
  "rebound a = snd (init_app a connected)"

section \<open>Unfolding rules\<close>

text \<open>
  The driver's operations and the truth tests of Python, for the proofs that run a
  method on a given state.
\<close>

lemmas driver_defs = Cluster_def set_auth_provider_def cluster_connect_def
  set_default_consistency_level_def session_prepare_def session_execute_def cluster_shutdown_def

lemmas python_defs = truthy_def py_or_def truthy_level_def setdefault_def

section \<open>What connect does\<close>

lemma py_or_idem: "py_or (py_or a b) b = py_or a b"
  by (simp add: py_or_def)

lemma connect_cluster_exists: "cluster (self (snd (connect ka l s))) \<noteq> None"
  by (auto simp: connect_def Let_def Cluster_def cluster_connect_def split: option.splits)

lemma connect_hit:
  assumes "cluster (self s) = Some c" and "py_or ka (keyspace (self s)) = Some k" and "k \<noteq> []"
    and "CassandraCluster__session (self s) k = Some sid"
  shows "connect ka l s = (Inr (Some sid), s)"
  using assms by (simp add: connect_def)

lemma connect_no_keyspace:
  assumes "\<not> truthy (py_or ka (keyspace (self s)))"
  shows "fst (connect ka l s) = Inr None"
  using assms by (auto simp: connect_def Let_def truthy_def split: option.splits)

lemma connect_frame:
  "app (self (snd (connect ka l s))) = app (self s)"
  "nodes (self (snd (connect ka l s))) = nodes (self s)"
  "port (self (snd (connect ka l s))) = port (self s)"
  "user (self (snd (connect ka l s))) = user (self s)"
  "password (self (snd (connect ka l s))) = password (self s)"
  "keyspace (self (snd (connect ka l s))) = keyspace (self s)"
  "default_consistency_level (self (snd (connect ka l s))) = default_consistency_level (self s)"
  "CassandraCluster__queries (self (snd (connect ka l s))) = CassandraCluster__queries (self s)"
  "stack (snd (connect ka l s)) = stack s"
  by (auto simp: connect_def Let_def Cluster_def cluster_connect_def split: option.splits)

lemma connect_stack: "stack (snd (connect ka l s)) = stack s"
  by (rule connect_frame(9))

lemma connect_config: "config (apps (snd (connect ka l s)) a) = config (apps s a)"
proof (cases "cluster (self s)")
  case None
  then show ?thesis
    by (cases "py_or ka (keyspace (self s))"; cases "app (self s)")
       (auto simp: connect_def Let_def Cluster_def cluster_connect_def split: option.splits)
next
  case (Some c)
  then show ?thesis
    by (cases "py_or ka (keyspace (self s))"; cases "app (self s)")
       (auto simp: connect_def Let_def Cluster_def cluster_connect_def split: option.splits)
qed

lemma connect_pair:
  assumes "fst (connect ka l s) = r" and "t = snd (connect ka l s)"
  shows "connect ka l s = (r, t)"
  using assms by (cases "connect ka l s") simp

lemma connect_miss:
  assumes "app (self s) \<noteq> None" and "py_or ka (keyspace (self s)) = Some k" and "k \<noteq> []"
    and "CassandraCluster__session (self s) k = None"
  shows "\<exists>sid c. connect ka l s = (Inr (Some sid), snd (connect ka l s))
     \<and> next_id (driver s) \<le> sid \<and> sid < next_id (driver (snd (connect ka l s)))
     \<and> cluster (self (snd (connect ka l s))) = Some c
     \<and> CassandraCluster__session (self (snd (connect ka l s)))
         = (CassandraCluster__session (self s))(k \<mapsto> sid)
     \<and> sessions (driver (snd (connect ka l s))) sid
         = Some \<lparr>session_cluster = c, session_keyspace = k,
                 session_default_consistency_level = (if truthy_level l then l else None)\<rparr>"
  using assms
  by (auto simp: connect_def Let_def Cluster_def cluster_connect_def set_auth_provider_def
      set_default_consistency_level_def split: option.splits)

lemma connect_cache_grows:
  assumes "CassandraCluster__session (self s) j = Some x"
  shows "CassandraCluster__session (self (snd (connect ka l s))) j = Some x"
  using assms
  by (auto simp: connect_def Let_def Cluster_def cluster_connect_def split: option.splits)

lemma connect_cache_dom:
  "dom (CassandraCluster__session (self (snd (connect ka l s))))
     \<subseteq> dom (CassandraCluster__session (self s)) \<union> {k. py_or ka (keyspace (self s)) = Some k}"
  by (auto simp: connect_def Let_def Cluster_def cluster_connect_def split: option.splits if_splits)

lemma connect_next_id: "next_id (driver s) \<le> next_id (driver (snd (connect ka l s)))"
  by (auto simp: connect_def Let_def Cluster_def cluster_connect_def set_auth_provider_def
      set_default_consistency_level_def split: option.splits)

lemma connect_sessions_old:
  assumes "i < next_id (driver s)"
  shows "sessions (driver (snd (connect ka l s))) i = sessions (driver s) i"
  using assms
  by (auto simp: connect_def Let_def Cluster_def cluster_connect_def set_auth_provider_def
      set_default_consistency_level_def split: option.splits)

lemma connect_cache_new:
  assumes "CassandraCluster__session (self (snd (connect ka l s))) j = Some x"
    and "CassandraCluster__session (self s) j \<noteq> Some x"
  shows "j \<noteq> [] \<and> x < next_id (driver (snd (connect ka l s)))
     \<and> (\<exists>so. sessions (driver (snd (connect ka l s))) x = Some so \<and> session_keyspace so = j)"
  using assms
  by (auto simp: connect_def Let_def Cluster_def cluster_connect_def set_auth_provider_def
      set_default_consistency_level_def split: option.splits if_splits)

text \<open>
  The invariant of the session cache: what it gives for one entry, that no session is
  cached under two keyspaces, and that it survives every step that keeps the cache and
  the driver's sessions.
\<close>

lemma cache_okD:
  assumes "cache_ok s" and "CassandraCluster__session (self s) k = Some sid"
  shows "k \<noteq> []" and "sid < next_id (driver s)"
    and "\<exists>so. sessions (driver s) sid = Some so \<and> session_keyspace so = k"
  using assms unfolding cache_ok_def by blast+

lemma cache_ok_inj:
  assumes "cache_ok s" and "CassandraCluster__session (self s) k = Some sid"
    and "CassandraCluster__session (self s) k' = Some sid"
  shows "k = k'"
  using cache_okD(3) [OF assms(1,2)] cache_okD(3) [OF assms(1,3)] by auto

lemma cache_ok_mono:
  assumes "cache_ok s"
    and "CassandraCluster__session (self t) = CassandraCluster__session (self s)"
    and "sessions (driver t) = sessions (driver s)"
    and "next_id (driver s) \<le> next_id (driver t)"
  shows "cache_ok t"
  unfolding cache_ok_def
proof (intro allI impI)
  fix k sid
  assume "CassandraCluster__session (self t) k = Some sid"
  with assms(2) have c: "CassandraCluster__session (self s) k = Some sid" by simp
  from cache_okD [OF assms(1) c] assms(3,4)
  show "k \<noteq> [] \<and> sid < next_id (driver t)
     \<and> (\<exists>so. sessions (driver t) sid = Some so \<and> session_keyspace so = k)"
    by auto
qed

lemma connect_cache_ok:
  assumes "cache_ok s"
  shows "cache_ok (snd (connect ka l s))"
  unfolding cache_ok_def
proof (intro allI impI)
  fix j x
  assume new: "CassandraCluster__session (self (snd (connect ka l s))) j = Some x"
  show "j \<noteq> [] \<and> x < next_id (driver (snd (connect ka l s)))
     \<and> (\<exists>so. sessions (driver (snd (connect ka l s))) x = Some so \<and> session_keyspace so = j)"
  proof (cases "CassandraCluster__session (self s) j = Some x")
    case True
    with assms have old: "j \<noteq> []" "x < next_id (driver s)"
      "\<exists>so. sessions (driver s) x = Some so \<and> session_keyspace so = j"
      unfolding cache_ok_def by blast+
    from old(2) connect_next_id [of s ka l]
    have "x < next_id (driver (snd (connect ka l s)))" by simp
    with old show ?thesis by (simp add: connect_sessions_old)
  next
    case False
    with new show ?thesis by (rule connect_cache_new)
  qed
qed

lemma connect_cached_statement: "cached_statement (snd (connect ka l s)) = cached_statement s"
  by (simp add: cached_statement_def fun_eq_iff connect_frame)

lemma connect_no_ValueError: "fst (connect ka l s) \<noteq> Inl (ValueError m)"
  by (auto simp: connect_def Let_def Cluster_def cluster_connect_def split: option.splits)

lemma connect_bound_ok:
  assumes "app (self s) \<noteq> None"
  shows "\<exists>r. fst (connect ka l s) = Inr r"
  using assms
  by (auto simp: connect_def Let_def Cluster_def cluster_connect_def split: option.splits)

lemma connect_result_cached:
  assumes "fst (connect ka l s) = Inr r"
  shows "r = (case py_or ka (keyspace (self s)) of None \<Rightarrow> None
              | Some k \<Rightarrow> if k = [] then None
                          else CassandraCluster__session (self (snd (connect ka l s))) k)"
  using assms
  by (auto simp: connect_def Let_def Cluster_def cluster_connect_def split: option.splits if_splits)

section \<open>What prepare_query and execute_prepared do\<close>

lemma prepare_query_no_ValueError: "fst (prepare_query n q ka f s) \<noteq> Inl (ValueError m)"
  using connect_no_ValueError [of "py_or ka (keyspace (self s))" None s m]
  by (auto simp: prepare_query_def Let_def session_prepare_def split: option.splits prod.splits sum.splits)

lemma ensure_table_cached_statement: "cached_statement (ensure_table ks s) = cached_statement s"
  by (auto simp: ensure_table_def cached_statement_def fun_eq_iff split: option.splits)

lemma ensure_table_lookup:
  "CassandraCluster__queries (self (ensure_table ks s)) ks = Some (cached_statement s ks)"
  by (auto simp: ensure_table_def cached_statement_def fun_eq_iff split: option.splits)

lemma ensure_table_frame:
  "app (self (ensure_table ks s)) = app (self s)"
  "cluster (self (ensure_table ks s)) = cluster (self s)"
  "nodes (self (ensure_table ks s)) = nodes (self s)"
  "port (self (ensure_table ks s)) = port (self s)"
  "user (self (ensure_table ks s)) = user (self s)"
  "password (self (ensure_table ks s)) = password (self s)"
  "keyspace (self (ensure_table ks s)) = keyspace (self s)"
  "default_consistency_level (self (ensure_table ks s)) = default_consistency_level (self s)"
  "CassandraCluster__session (self (ensure_table ks s)) = CassandraCluster__session (self s)"
  "driver (ensure_table ks s) = driver s"
  "apps (ensure_table ks s) = apps s"
  "stack (ensure_table ks s) = stack s"
  by (simp_all add: ensure_table_def)

lemma ensure_table_idem: "ensure_table ks (ensure_table ks s) = ensure_table ks s"
  by (simp add: ensure_table_def)

lemma ensure_table_cache_ok:
  assumes "cache_ok s"
  shows "cache_ok (ensure_table ks s)"
  by (rule cache_ok_mono [OF assms]) (simp_all add: ensure_table_frame)

text \<open>
  Both methods after a \<^verbatim>\<open>connect\<close> that returned: the rest of the method, with the
  table of the keyspace ensured.
\<close>

lemma prepare_query_bound:
  assumes "connect (py_or ka (keyspace (self s))) None s = (Inr r, s1)"
  shows "prepare_query n q ka f s =
     (let ks = py_or ka (keyspace (self s)); s2 = ensure_table ks s1 in
      if f \<or> cached_statement s ks n = None then
        (case r of
           None \<Rightarrow> (Inl (AttributeError ''prepare''), s2)
         | Some sid \<Rightarrow>
             (let (st, d) = session_prepare sid q (driver s2)
              in (Inr st,
                  s2\<lparr>driver := d,
                     self := (self s2)\<lparr>CassandraCluster__queries :=
                       (CassandraCluster__queries (self s2))
                         (ks \<mapsto> (cached_statement s ks)(n \<mapsto> st))\<rparr>\<rparr>)))
      else
        (case cached_statement s ks n of
           None \<Rightarrow> (Inl (KeyError (Some n)), s2)
         | Some st \<Rightarrow> (Inr st, s2)))"
proof -
  have cs: "cached_statement s1 = cached_statement s"
    using connect_cached_statement [of "py_or ka (keyspace (self s))" None s] assms by simp
  show ?thesis
    unfolding prepare_query_def Let_def assms prod.case sum.case
      ensure_table_def [symmetric] ensure_table_lookup option.case cs
    by (rule refl)
qed

lemma execute_prepared_bound:
  assumes "connect (py_or ka (keyspace (self s))) None s = (Inr r, s1)"
  shows "execute_prepared n ka q ps s =
     (let ks = py_or ka (keyspace (self s)); s2 = ensure_table ks s1 in
      case (if cached_statement s ks n = None then
              (case q of
                 None \<Rightarrow> (Inl (ValueError (no_query_message n)), s2)
               | Some q' \<Rightarrow>
                   (case prepare_query n q' ks False s2 of
                      (Inl e, s3) \<Rightarrow> (Inl e, s3)
                    | (Inr st, s3) \<Rightarrow> (Inr (), s3)))
            else (Inr (), s2)) of
        (Inl e, s3) \<Rightarrow> (Inl e, s3)
      | (Inr u, s3) \<Rightarrow>
          (case r of
             None \<Rightarrow> (Inl (AttributeError ''execute''), s3)
           | Some sid \<Rightarrow>
               (case CassandraCluster__queries (self s3) (Some n) of
                  None \<Rightarrow> (Inl (KeyError (Some n)), s3)
                | Some t \<Rightarrow>
                    (let (res, d) = session_execute sid (StatementTable t) ps (driver s3)
                     in (Inr res, s3\<lparr>driver := d\<rparr>)))))"
proof -
  have cs: "cached_statement s1 = cached_statement s"
    using connect_cached_statement [of "py_or ka (keyspace (self s))" None s] assms by simp
  show ?thesis
    unfolding execute_prepared_def Let_def assms prod.case sum.case
      ensure_table_def [symmetric] ensure_table_lookup option.case cs
    by (rule refl)
qed

lemma execute_prepared_raises_ValueError_iff:
  assumes "app (self s) \<noteq> None"
  shows "fst (execute_prepared n ka q ps s) = Inl (ValueError m) \<longleftrightarrow>
     m = no_query_message n \<and> cached_statement s (py_or ka (keyspace (self s))) n = None \<and> q = None"
proof -
  obtain r s1 where c: "connect (py_or ka (keyspace (self s))) None s = (Inr r, s1)"
    using connect_bound_ok [OF assms, of "py_or ka (keyspace (self s))" None]
    by (cases "connect (py_or ka (keyspace (self s))) None s") auto
  show ?thesis
  proof (cases "cached_statement s (py_or ka (keyspace (self s))) n")
    case (Some st)
    then show ?thesis
      by (auto simp: execute_prepared_bound [OF c] Let_def session_execute_def split: option.splits)
  next
    case None
    show ?thesis
    proof (cases q)
      case None
      with \<open>cached_statement s (py_or ka (keyspace (self s))) n = None\<close> show ?thesis
        by (auto simp: execute_prepared_bound [OF c] Let_def)
    next
      case (Some q')
      obtain r3 s3 where p: "prepare_query n q' (py_or ka (keyspace (self s))) False
          (ensure_table (py_or ka (keyspace (self s))) s1) = (r3, s3)"
        by (cases "prepare_query n q' (py_or ka (keyspace (self s))) False
          (ensure_table (py_or ka (keyspace (self s))) s1)") auto
      have "r3 \<noteq> Inl (ValueError m)"
        using prepare_query_no_ValueError [of n q' "py_or ka (keyspace (self s))" False
            "ensure_table (py_or ka (keyspace (self s))) s1" m] p by simp
      with Some \<open>cached_statement s (py_or ka (keyspace (self s))) n = None\<close> show ?thesis
        by (auto simp: execute_prepared_bound [OF c] Let_def p session_execute_def
            split: option.splits sum.splits)
    qed
  qed
qed

lemma execute_prepared_error_state:
  assumes "app (self s) \<noteq> None"
    and "fst (execute_prepared n ka q ps s) = Inl (ValueError m)"
  shows "snd (execute_prepared n ka q ps s) =
     ensure_table (py_or ka (keyspace (self s)))
       (snd (connect (py_or ka (keyspace (self s))) None s))"
proof -
  obtain r s1 where c: "connect (py_or ka (keyspace (self s))) None s = (Inr r, s1)"
    using connect_bound_ok [OF assms(1), of "py_or ka (keyspace (self s))" None]
    by (cases "connect (py_or ka (keyspace (self s))) None s") auto
  from assms have "cached_statement s (py_or ka (keyspace (self s))) n = None" "q = None"
    by (simp_all add: execute_prepared_raises_ValueError_iff)
  then show ?thesis
    by (simp add: execute_prepared_bound [OF c] Let_def c)
qed

text \<open>
  A first \<^verbatim>\<open>execute_prepared\<close> with a query text, for a name not yet cached under a
  non-empty keyspace: the statement is compiled and stored under the keyspace and the
  name, and the statement to execute is then looked up in \<^verbatim>\<open>self.__queries\<close> under
  the name alone.
\<close>

lemma execute_prepared_uncached:
  assumes "app (self s) \<noteq> None" and "py_or ka (keyspace (self s)) = Some k" and "k \<noteq> []"
    and "cached_statement s (Some k) n = None"
  obtains sid where
    "CassandraCluster__session (self (snd (connect (Some k) None s))) k = Some sid"
    "execute_prepared n ka (Some q) ps s =
       (let s2 = ensure_table (Some k) (snd (connect (Some k) None s));
            s3 = s2\<lparr>driver := snd (session_prepare sid q (driver s2)),
                    self := (self s2)\<lparr>CassandraCluster__queries :=
                      (CassandraCluster__queries (self s2))
                        (Some k \<mapsto> (cached_statement s2 (Some k))(n \<mapsto> next_id (driver s2)))\<rparr>\<rparr>
        in case CassandraCluster__queries (self s3) (Some n) of
             None \<Rightarrow> (Inl (KeyError (Some n)), s3)
           | Some t \<Rightarrow>
               (let (r, d) = session_execute sid (StatementTable t) ps (driver s3)
                in (Inr r, s3\<lparr>driver := d\<rparr>)))"
proof -
  obtain r s1 where c: "connect (Some k) None s = (Inr r, s1)"
    using connect_bound_ok [OF assms(1), of "Some k" None]
    by (cases "connect (Some k) None s") auto
  have s1: "s1 = snd (connect (Some k) None s)" using c by simp
  have idem: "py_or (Some k) (keyspace (self s)) = Some k"
    using assms(3) by (simp add: py_or_def truthy_def)
  have "cluster (self s1) \<noteq> None" unfolding s1 by (rule connect_cluster_exists)
  then obtain cl where cl: "cluster (self s1) = Some cl" by auto
  have r: "r = CassandraCluster__session (self s1) k"
    using connect_result_cached [of "Some k" None s r] c assms(3) idem by simp
  have "r \<noteq> None"
  proof (cases "CassandraCluster__session (self s) k")
    case None
    from connect_miss [OF assms(1) idem assms(3) None, of None] c show ?thesis by auto
  next
    case (Some x)
    from connect_cache_grows [OF Some, of "Some k" None] r s1 show ?thesis by simp
  qed
  then obtain sid where sid: "r = Some sid" by auto
  define s2 where "s2 = ensure_table (Some k) s1"
  have ks2: "py_or (Some k) (keyspace (self s2)) = Some k"
    using assms(3) by (simp add: py_or_def truthy_def)
  have hit: "connect (Some k) None s2 = (Inr (Some sid), s2)"
    by (rule connect_hit [where c = cl and k = k])
      (use cl r sid assms(3) ks2 in \<open>simp_all add: s2_def ensure_table_frame\<close>)
  have cs2: "cached_statement s2 = cached_statement s"
    using connect_cached_statement [of "Some k" None s] c
    by (simp add: s2_def ensure_table_cached_statement)
  have hit': "connect (py_or (Some k) (keyspace (self s2))) None s2 = (Inr (Some sid), s2)"
    using hit ks2 by simp
  have et: "ensure_table (Some k) s2 = s2"
    by (simp add: s2_def ensure_table_idem)
  have p: "prepare_query n q (Some k) False s2 =
     (Inr (next_id (driver s2)),
      s2\<lparr>driver := snd (session_prepare sid q (driver s2)),
         self := (self s2)\<lparr>CassandraCluster__queries :=
           (CassandraCluster__queries (self s2))
             (Some k \<mapsto> (cached_statement s2 (Some k))(n \<mapsto> next_id (driver s2)))\<rparr>\<rparr>)"
    using assms(4)
    by (simp add: prepare_query_bound [OF hit'] ks2 Let_def cs2 et session_prepare_def)
  have c': "connect (py_or ka (keyspace (self s))) None s = (Inr r, s1)"
    using c assms(2) by simp
  have e: "execute_prepared n ka (Some q) ps s =
       (let s2 = ensure_table (Some k) (snd (connect (Some k) None s));
            s3 = s2\<lparr>driver := snd (session_prepare sid q (driver s2)),
                    self := (self s2)\<lparr>CassandraCluster__queries :=
                      (CassandraCluster__queries (self s2))
                        (Some k \<mapsto> (cached_statement s2 (Some k))(n \<mapsto> next_id (driver s2)))\<rparr>\<rparr>
        in case CassandraCluster__queries (self s3) (Some n) of
             None \<Rightarrow> (Inl (KeyError (Some n)), s3)
           | Some t \<Rightarrow>
               (let (r, d) = session_execute sid (StatementTable t) ps (driver s3)
                in (Inr r, s3\<lparr>driver := d\<rparr>)))"
    using assms(4)
    by (simp add: execute_prepared_bound [OF c'] assms(2) Let_def sid p
        s1 [symmetric] s2_def [symmetric])
  from r sid have "CassandraCluster__session (self (snd (connect (Some k) None s))) k = Some sid"
    by (simp add: s1)
  with e that show thesis by blast
qed

lemma execute_prepared_compiles:
  assumes "app (self s) \<noteq> None" and "py_or ka (keyspace (self s)) = Some k" and "k \<noteq> []"
    and "cached_statement s (Some k) n = None"
  shows "\<exists>sid st. CassandraCluster__session (self (snd (execute_prepared n ka (Some q) ps s))) k
                  = Some sid
     \<and> cached_statement (snd (execute_prepared n ka (Some q) ps s)) (Some k) n = Some st
     \<and> statements (driver (snd (execute_prepared n ka (Some q) ps s))) st = Some (sid, q)
     \<and> next_id (driver s) \<le> st"
proof -
  define s2 where "s2 = ensure_table (Some k) (snd (connect (Some k) None s))"
  obtain sid where sid: "CassandraCluster__session (self s2) k = Some sid"
    and e: "execute_prepared n ka (Some q) ps s =
       (let s3 = s2\<lparr>driver := snd (session_prepare sid q (driver s2)),
                    self := (self s2)\<lparr>CassandraCluster__queries :=
                      (CassandraCluster__queries (self s2))
                        (Some k \<mapsto> (cached_statement s2 (Some k))(n \<mapsto> next_id (driver s2)))\<rparr>\<rparr>
        in case CassandraCluster__queries (self s3) (Some n) of
             None \<Rightarrow> (Inl (KeyError (Some n)), s3)
           | Some t \<Rightarrow>
               (let (r, d) = session_execute sid (StatementTable t) ps (driver s3)
                in (Inr r, s3\<lparr>driver := d\<rparr>)))"
    using execute_prepared_uncached [OF assms, where q = q and ps = ps]
    unfolding s2_def Let_def by (auto simp: ensure_table_frame)
  have nid: "next_id (driver s) \<le> next_id (driver s2)"
    by (simp add: s2_def ensure_table_frame connect_next_id)
  show ?thesis
    using nid sid
    by (simp add: e Let_def session_execute_def session_prepare_def cached_statement_def
        split: option.splits)
qed

text \<open>
  When the name is not the name of a keyspace that has a table, that lookup fails.
\<close>

lemma execute_prepared_KeyError:
  assumes "app (self s) \<noteq> None" and "py_or ka (keyspace (self s)) = Some k" and "k \<noteq> []"
    and "cached_statement s (Some k) n = None"
    and "n \<noteq> k" and "CassandraCluster__queries (self s) (Some n) = None"
  shows "fst (execute_prepared n ka (Some q) ps s) = Inl (KeyError (Some n))"
proof -
  obtain sid where e: "execute_prepared n ka (Some q) ps s =
       (let s2 = ensure_table (Some k) (snd (connect (Some k) None s));
            s3 = s2\<lparr>driver := snd (session_prepare sid q (driver s2)),
                    self := (self s2)\<lparr>CassandraCluster__queries :=
                      (CassandraCluster__queries (self s2))
                        (Some k \<mapsto> (cached_statement s2 (Some k))(n \<mapsto> next_id (driver s2)))\<rparr>\<rparr>
        in case CassandraCluster__queries (self s3) (Some n) of
             None \<Rightarrow> (Inl (KeyError (Some n)), s3)
           | Some t \<Rightarrow>
               (let (r, d) = session_execute sid (StatementTable t) ps (driver s3)
                in (Inr r, s3\<lparr>driver := d\<rparr>)))"
    using execute_prepared_uncached [OF assms(1-4)] by blast
  have "CassandraCluster__queries (self (ensure_table (Some k) (snd (connect (Some k) None s))))
      (Some n) = None"
    using assms(5,6) by (simp add: ensure_table_def connect_frame)
  with assms(5) show ?thesis
    by (simp add: e Let_def)
qed

lemma prepare_query_cache_ok:
  assumes "cache_ok s"
  shows "cache_ok (snd (prepare_query n q ka f s))"
proof -
  obtain r s1 where c: "connect (py_or ka (keyspace (self s))) None s = (r, s1)"
    by (cases "connect (py_or ka (keyspace (self s))) None s") auto
  have ok1: "cache_ok s1"
    using connect_cache_ok [OF assms, of "py_or ka (keyspace (self s))" None] c by simp
  show ?thesis
  proof (cases r)
    case (Inl e)
    with c ok1 show ?thesis by (simp add: prepare_query_def)
  next
    case (Inr sess)
    note ok2 = ensure_table_cache_ok [OF ok1, of "py_or ka (keyspace (self s))"]
    have "cache_ok (snd (prepare_query n q ka f s))
        \<or> (\<exists>d qs. snd (prepare_query n q ka f s)
              = (ensure_table (py_or ka (keyspace (self s))) s1)
                  \<lparr>driver := snd (session_prepare d q
                       (driver (ensure_table (py_or ka (keyspace (self s))) s1))),
                   self := (self (ensure_table (py_or ka (keyspace (self s))) s1))
                     \<lparr>CassandraCluster__queries := qs\<rparr>\<rparr>)"
      using ok2 c Inr
      by (auto simp: prepare_query_bound [of ka s sess s1] Let_def session_prepare_def
          split: option.splits)
    then show ?thesis
    proof
      assume "cache_ok (snd (prepare_query n q ka f s))"
      then show ?thesis .
    next
      assume "\<exists>d qs. snd (prepare_query n q ka f s)
              = (ensure_table (py_or ka (keyspace (self s))) s1)
                  \<lparr>driver := snd (session_prepare d q
                       (driver (ensure_table (py_or ka (keyspace (self s))) s1))),
                   self := (self (ensure_table (py_or ka (keyspace (self s))) s1))
                     \<lparr>CassandraCluster__queries := qs\<rparr>\<rparr>"
      then obtain d qs where e: "snd (prepare_query n q ka f s)
              = (ensure_table (py_or ka (keyspace (self s))) s1)
                  \<lparr>driver := snd (session_prepare d q
                       (driver (ensure_table (py_or ka (keyspace (self s))) s1))),
                   self := (self (ensure_table (py_or ka (keyspace (self s))) s1))
                     \<lparr>CassandraCluster__queries := qs\<rparr>\<rparr>"
        by blast
      show ?thesis
        by (rule cache_ok_mono [OF ok2]) (simp_all add: e session_prepare_def)
    qed
  qed
qed

lemma execute_tail_cache_ok:
  assumes "cache_ok t"
  shows "cache_ok (snd (case sess of
             None \<Rightarrow> (Inl (AttributeError ''execute''), t)
           | Some sid \<Rightarrow>
               (case CassandraCluster__queries (self t) (Some n) of
                  None \<Rightarrow> (Inl (KeyError (Some n)), t)
                | Some tb \<Rightarrow>
                    (case session_execute sid (StatementTable tb) ps (driver t) of
                       (res, d) \<Rightarrow> (Inr res, t\<lparr>driver := d\<rparr>)))))"
proof (cases sess)
  case None
  with assms show ?thesis by simp
next
  case (Some sid)
  show ?thesis
  proof (cases "CassandraCluster__queries (self t) (Some n)")
    case None
    with Some assms show ?thesis by simp
  next
    case (Some tb)
    have "cache_ok (t\<lparr>driver := snd (session_execute sid (StatementTable tb) ps (driver t))\<rparr>)"
      by (rule cache_ok_mono [OF assms]) (simp_all add: session_execute_def)
    with Some \<open>sess = Some sid\<close> show ?thesis
      by (simp add: session_execute_def)
  qed
qed

lemma execute_prepared_cache_ok:
  assumes "cache_ok s"
  shows "cache_ok (snd (execute_prepared n ka q ps s))"
proof -
  define ks where "ks = py_or ka (keyspace (self s))"
  obtain r s1 where c: "connect ks None s = (r, s1)"
    by (cases "connect ks None s") auto
  have ok1: "cache_ok s1"
    using connect_cache_ok [OF assms, of ks None] c by simp
  show ?thesis
  proof (cases r)
    case (Inl e)
    with c ok1 show ?thesis by (simp add: execute_prepared_def ks_def)
  next
    case (Inr sess)
    define s2 where "s2 = ensure_table ks s1"
    have ok2: "cache_ok s2" unfolding s2_def by (rule ensure_table_cache_ok [OF ok1])
    have c': "connect (py_or ka (keyspace (self s))) None s = (Inr sess, s1)"
      using c Inr by (simp add: ks_def)
    note e = execute_prepared_bound [OF c', unfolded Let_def, folded ks_def, folded s2_def]
    show ?thesis
    proof (cases "cached_statement s ks n")
      case (Some y)
      with execute_tail_cache_ok [OF ok2, where sess = sess and n = n and ps = ps] show ?thesis
        by (simp add: e)
    next
      case True: None
      show ?thesis
      proof (cases q)
        case None
        with True ok2 show ?thesis by (simp add: e)
      next
        case (Some q')
        obtain rp s3 where p: "prepare_query n q' ks False s2 = (rp, s3)"
          by (cases "prepare_query n q' ks False s2") auto
        have ok3: "cache_ok s3"
          using prepare_query_cache_ok [OF ok2, of n q' ks False] p by simp
        show ?thesis
        proof (cases rp)
          case (Inl err)
          with True Some p ok3 show ?thesis by (simp add: e)
        next
          case (Inr st)
          with True Some p execute_tail_cache_ok [OF ok3, where sess = sess and n = n and ps = ps] show ?thesis
            by (simp add: e)
        qed
      qed
    qed
  qed
qed

section \<open>What init_app, teardown and connection do\<close>

lemma init_app_self:
  "self (snd (init_app a s)) =
     (self s)\<lparr>app := Some a,
       nodes := (case setdefault (CASSANDRA_NODES (config (apps s a))) (NodesList [''localhost''])
                 of NodesStr x \<Rightarrow> [x] | NodesList l \<Rightarrow> l),
       port := setdefault (CASSANDRA_PORT (config (apps s a))) 9042,
       user := setdefault (CASSANDRA_USER (config (apps s a))) None,
       password := setdefault (CASSANDRA_PASSWORD (config (apps s a))) None,
       keyspace := setdefault (CASSANDRA_KEYSPACE (config (apps s a))) None,
       default_consistency_level :=
         setdefault (CASSANDRA_CONSISTENCY_LEVEL (config (apps s a))) None,
       CassandraCluster__sessions := Some Map.empty,
       CassandraCluster__queries := Map.empty,
       cluster := None\<rparr>"
proof (cases "stack s")
  case Nil
  then show ?thesis by (simp add: init_app_def Let_def)
next
  case (Cons ctx rest)
  show ?thesis
  proof (cases "cassandra_cluster ctx")
    case None
    with Cons show ?thesis by (simp add: init_app_def Let_def)
  next
    case (Some v)
    with Cons show ?thesis by (cases v) (simp_all add: init_app_def Let_def)
  qed
qed

lemma init_app_no_context:
  assumes "stack s = []"
  shows "fst (init_app a s) = Inr ()" and "driver (snd (init_app a s)) = driver s"
    and "stack (snd (init_app a s)) = []"
  using assms by (simp_all add: init_app_def Let_def)

lemma init_app_apps_other:
  assumes "a' \<noteq> a"
  shows "apps (snd (init_app a s)) a' = apps s a'"
proof (cases "stack s")
  case Nil
  with assms show ?thesis by (simp add: init_app_def Let_def)
next
  case (Cons ctx rest)
  show ?thesis
  proof (cases "cassandra_cluster ctx")
    case None
    with Cons assms show ?thesis by (simp add: init_app_def Let_def)
  next
    case (Some v)
    with Cons assms show ?thesis by (cases v) (simp_all add: init_app_def Let_def)
  qed
qed

lemma init_app_config:
  "config (apps (snd (init_app a s)) a) =
     \<lparr>CASSANDRA_CONSISTENCY_LEVEL =
        Some (setdefault (CASSANDRA_CONSISTENCY_LEVEL (config (apps s a))) None),
      CASSANDRA_NODES =
        Some (NodesList
          (case setdefault (CASSANDRA_NODES (config (apps s a))) (NodesList [''localhost''])
           of NodesStr x \<Rightarrow> [x] | NodesList l \<Rightarrow> l)),
      CASSANDRA_PORT = Some (setdefault (CASSANDRA_PORT (config (apps s a))) 9042),
      CASSANDRA_USER = Some (setdefault (CASSANDRA_USER (config (apps s a))) None),
      CASSANDRA_PASSWORD = Some (setdefault (CASSANDRA_PASSWORD (config (apps s a))) None),
      CASSANDRA_KEYSPACE = Some (setdefault (CASSANDRA_KEYSPACE (config (apps s a))) None)\<rparr>"
proof (cases "stack s")
  case Nil
  then show ?thesis by (simp add: init_app_def Let_def)
next
  case (Cons ctx rest)
  show ?thesis
  proof (cases "cassandra_cluster ctx")
    case None
    with Cons show ?thesis by (simp add: init_app_def Let_def)
  next
    case (Some v)
    with Cons show ?thesis by (cases v) (simp_all add: init_app_def Let_def)
  qed
qed

text \<open>
  \<^verbatim>\<open>init_app\<close> clears \<^verbatim>\<open>__sessions\<close>, \<^verbatim>\<open>__queries\<close> and \<^verbatim>\<open>cluster\<close>; the
  session cache \<^verbatim>\<open>__session\<close> that \<^verbatim>\<open>connect\<close> uses is not among them.
\<close>

lemma init_app_session_cache:
  "CassandraCluster__session (self (snd (init_app a s))) = CassandraCluster__session (self s)"
  by (simp add: init_app_self)

lemma init_app_resets:
  "CassandraCluster__queries (self (snd (init_app a s))) = Map.empty"
  "cluster (self (snd (init_app a s))) = None"
  "CassandraCluster__sessions (self (snd (init_app a s))) = Some Map.empty"
  by (simp_all add: init_app_self)

lemma init_app_driver:
  "next_id (driver (snd (init_app a s))) = next_id (driver s)"
  "sessions (driver (snd (init_app a s))) = sessions (driver s)"
proof -
  have "next_id (driver (snd (init_app a s))) = next_id (driver s)
      \<and> sessions (driver (snd (init_app a s))) = sessions (driver s)"
  proof (cases "stack s")
    case Nil
    then show ?thesis by (simp add: init_app_def Let_def)
  next
    case (Cons ctx rest)
    show ?thesis
    proof (cases "cassandra_cluster ctx")
      case None
      with Cons show ?thesis by (simp add: init_app_def Let_def)
    next
      case (Some v)
      with Cons show ?thesis
        by (cases v; cases "clusters (driver s) (the v)")
           (simp_all add: init_app_def Let_def cluster_shutdown_def)
    qed
  qed
  then show "next_id (driver (snd (init_app a s))) = next_id (driver s)"
    and "sessions (driver (snd (init_app a s))) = sessions (driver s)"
    by simp_all
qed

lemma init_app_cache_ok:
  assumes "cache_ok s"
  shows "cache_ok (snd (init_app a s))"
  by (rule cache_ok_mono [OF assms]) (simp_all add: init_app_session_cache init_app_driver)

lemma CassandraCluster_init_cache_ok: "cache_ok (snd (CassandraCluster_init a s))"
  by (cases a) (simp_all add: CassandraCluster_init_def cache_ok_def init_app_session_cache)

lemma teardown_cache_ok: "cache_ok s \<Longrightarrow> cache_ok (snd (teardown e s))"
proof (cases "stack s")
  case Nil
  assume "cache_ok s"
  with Nil show ?thesis by (simp add: teardown_def)
next
  case (Cons ctx rest)
  assume ok: "cache_ok s"
  show ?thesis
  proof (cases "cassandra_cluster ctx")
    case None
    with Cons ok show ?thesis by (simp add: teardown_def)
  next
    case (Some v)
    show ?thesis
    proof (cases v)
      case None
      with Cons Some ok show ?thesis by (simp add: teardown_def)
    next
      case (Some c)
      with Cons \<open>cassandra_cluster ctx = Some v\<close>
      have e: "snd (teardown e s) = s\<lparr>driver := cluster_shutdown c (driver s)\<rparr>"
        by (simp add: teardown_def)
      show ?thesis
        by (rule cache_ok_mono [OF ok])
          (simp_all add: e cluster_shutdown_def split: option.splits)
    qed
  qed
qed

lemma connection_cache_ok:
  assumes "cache_ok s"
  shows "cache_ok (snd (connection s))"
proof (cases "stack s")
  case Nil
  with assms show ?thesis by (simp add: connection_def)
next
  case (Cons ctx rest)
  show ?thesis
  proof (cases "cassandra_cluster ctx")
    case (Some v)
    with Cons assms show ?thesis by (simp add: connection_def)
  next
    case None
    obtain r s1 where c: "connect None None s = (r, s1)"
      by (cases "connect None None s") auto
    have ok1: "cache_ok s1" using connect_cache_ok [OF assms, of None None] c by simp
    show ?thesis
    proof (cases r)
      case (Inl e)
      with Cons None c ok1 show ?thesis by (simp add: connection_def)
    next
      case (Inr x)
      with Cons None c
      have e: "snd (connection s)
          = s1\<lparr>stack := ctx\<lparr>cassandra_cluster := Some (cluster (self s1))\<rparr> # rest\<rparr>"
        by (simp add: connection_def)
      show ?thesis by (rule cache_ok_mono [OF ok1]) (simp_all add: e)
    qed
  qed
qed

section \<open>The example states\<close>

lemma bound_state:
  "fst (CassandraCluster_init (Some a) start) = Inr ()"
  "driver (bound a) = driver start"
  "stack (bound a) = []"
  by (simp_all add: bound_def CassandraCluster_init_def init_app_no_context start_def)

lemma bound_self:
  "self (bound a) = self (snd (init_app a (start\<lparr>self := (self start)\<lparr>app := Some a\<rparr>\<rparr>)))"
  by (simp add: bound_def CassandraCluster_init_def start_def)

lemma unbound_self:
  "self unbound =
     \<lparr>app = None, cluster = None, CassandraCluster__primary_session = None,
      CassandraCluster__session = Map.empty, CassandraCluster__sessions = None,
      CassandraCluster__queries = Map.empty, nodes = [], port = 9042,
      user = None, password = None, keyspace = None, default_consistency_level = None\<rparr>"
  by (simp add: unbound_def CassandraCluster_init_def)

lemma unbound_driver: "driver unbound = driver start"
  by (simp add: unbound_def CassandraCluster_init_def)

lemma bound_cache_ok: "cache_ok (bound a)"
  unfolding bound_def by (rule CassandraCluster_init_cache_ok)

lemma bound_0_self:
  "self (bound 0) =
     \<lparr>app = Some 0, cluster = None, CassandraCluster__primary_session = None,
      CassandraCluster__session = Map.empty, CassandraCluster__sessions = Some Map.empty,
      CassandraCluster__queries = Map.empty, nodes = [''localhost''], port = 9042,
      user = None, password = None, keyspace = None, default_consistency_level = None\<rparr>"
  by (simp add: bound_self init_app_self setdefault_def start_def example_apps_def Flask_def
      no_config_def)

lemma bound_2_self:
  "self (bound 2) =
     \<lparr>app = Some 2, cluster = None, CassandraCluster__primary_session = None,
      CassandraCluster__session = Map.empty, CassandraCluster__sessions = Some Map.empty,
      CassandraCluster__queries = Map.empty, nodes = [''cassandra.example.com''], port = 1234,
      user = Some ''username'', password = Some ''password'', keyspace = None,
      default_consistency_level = None\<rparr>"
  by (simp add: bound_self init_app_self setdefault_def start_def example_apps_def Flask_def
      no_config_def)

lemma bound_3_self:
  "self (bound 3) =
     \<lparr>app = Some 3, cluster = None, CassandraCluster__primary_session = None,
      CassandraCluster__session = Map.empty, CassandraCluster__sessions = Some Map.empty,
      CassandraCluster__queries = Map.empty, nodes = [''localhost''], port = 9042,
      user = Some ''u'', password = Some [], keyspace = None,
      default_consistency_level = None\<rparr>"
  by (simp add: bound_self init_app_self setdefault_def start_def example_apps_def Flask_def
      no_config_def)

lemma connect_bound_0: "connect (Some ''ks'') None (bound 0) = (Inr (Some 1), connected)"
  by (rule connect_pair)
    (simp_all add: connected_def connect_def Let_def driver_defs python_defs bound_0_self
      bound_state start_def)

lemma connected_snd: "snd (connect (Some ''ks'') None (bound 0)) = connected"
  by (simp add: connected_def)

lemma connected_self:
  "self connected =
     \<lparr>app = Some 0, cluster = Some 0, CassandraCluster__primary_session = None,
      CassandraCluster__session = [''ks'' \<mapsto> 1], CassandraCluster__sessions = Some Map.empty,
      CassandraCluster__queries = Map.empty, nodes = [''localhost''], port = 9042,
      user = None, password = None, keyspace = None, default_consistency_level = None\<rparr>"
  by (simp add: connected_def connect_def Let_def driver_defs python_defs bound_0_self
      bound_state start_def)

lemma connected_driver:
  "driver connected =
     \<lparr>next_id = 2,
      clusters = [0 \<mapsto> \<lparr>contact_points = [''localhost''], cluster_port = 9042,
                          auth_provider = None, is_shutdown = False\<rparr>],
      sessions = [1 \<mapsto> \<lparr>session_cluster = 0, session_keyspace = ''ks'',
                          session_default_consistency_level = None\<rparr>],
      statements = Map.empty, executed = []\<rparr>"
  by (simp add: connected_def connect_def Let_def driver_defs python_defs bound_0_self
      bound_state start_def)

lemma connected_stack: "stack connected = []"
  by (simp add: connected_def connect_stack bound_state)

lemma connected_config: "config (apps connected a) = config (apps (bound 0) a)"
  by (simp add: connected_def connect_config)

lemma connected_config_0:
  "config (apps connected 0) =
     \<lparr>CASSANDRA_CONSISTENCY_LEVEL = Some None,
      CASSANDRA_NODES = Some (NodesList [''localhost'']),
      CASSANDRA_PORT = Some 9042, CASSANDRA_USER = Some None,
      CASSANDRA_PASSWORD = Some None, CASSANDRA_KEYSPACE = Some None\<rparr>"
  by (simp add: connected_config bound_def CassandraCluster_init_def init_app_config
      setdefault_def start_def example_apps_def Flask_def no_config_def)

lemma connected_config_2:
  "config (apps connected 2) =
     no_config\<lparr>CASSANDRA_NODES := Some (NodesStr ''cassandra.example.com''),
               CASSANDRA_PORT := Some 1234,
               CASSANDRA_USER := Some (Some ''username''),
               CASSANDRA_PASSWORD := Some (Some ''password'')\<rparr>"
  by (simp add: connected_config bound_def CassandraCluster_init_def init_app_apps_other
      start_def example_apps_def Flask_def)

lemma rebound_state:
  "fst (init_app a connected) = Inr ()"
  "driver (rebound a) = driver connected"
  "stack (rebound a) = []"
  by (simp_all add: rebound_def init_app_no_context connected_stack)

lemma rebound_0_self:
  "self (rebound 0) =
     \<lparr>app = Some 0, cluster = None, CassandraCluster__primary_session = None,
      CassandraCluster__session = [''ks'' \<mapsto> 1], CassandraCluster__sessions = Some Map.empty,
      CassandraCluster__queries = Map.empty, nodes = [''localhost''], port = 9042,
      user = None, password = None, keyspace = None, default_consistency_level = None\<rparr>"
  by (simp add: rebound_def init_app_self connected_self connected_config_0 setdefault_def)

lemma rebound_2_self:
  "self (rebound 2) =
     \<lparr>app = Some 2, cluster = None, CassandraCluster__primary_session = None,
      CassandraCluster__session = [''ks'' \<mapsto> 1], CassandraCluster__sessions = Some Map.empty,
      CassandraCluster__queries = Map.empty, nodes = [''cassandra.example.com''], port = 1234,
      user = Some ''username'', password = Some ''password'', keyspace = None,
      default_consistency_level = None\<rparr>"
  by (simp add: rebound_def init_app_self connected_self connected_config_2 setdefault_def
      no_config_def)

lemma bound_0_uncached:
  "app (self (bound 0)) \<noteq> None"
  "py_or (Some ''ks'') (keyspace (self (bound 0))) = Some ''ks''"
  "cached_statement (bound 0) (Some ''ks'') n = None"
  by (simp_all add: bound_0_self python_defs cached_statement_def)

lemma execute_prepared_bound_0_error:
  "fst (execute_prepared ''q'' (Some ''ks'') None [] (bound 0))
     = Inl (ValueError (no_query_message ''q''))"
  "snd (execute_prepared ''q'' (Some ''ks'') None [] (bound 0))
     = ensure_table (Some ''ks'') connected"
proof -
  show e: "fst (execute_prepared ''q'' (Some ''ks'') None [] (bound 0))
     = Inl (ValueError (no_query_message ''q''))"
    by (simp add: execute_prepared_raises_ValueError_iff bound_0_uncached)
  from execute_prepared_error_state [OF bound_0_uncached(1) e]
  show "snd (execute_prepared ''q'' (Some ''ks'') None [] (bound 0))
     = ensure_table (Some ''ks'') connected"
    by (simp add: bound_0_uncached connected_snd)
qed

text \<open>
  Rules to run \<^verbatim>\<open>connect\<close> on a state whose manager and driver are known, and to
  evaluate what \<^verbatim>\<open>execute_prepared\<close> does after the first \<^verbatim>\<open>connect('ks')\<close>.
\<close>

lemmas connect_eval = connect_def Let_def driver_defs python_defs

lemmas table_eval = ensure_table_def cached_statement_def connected_snd connected_self
  connected_driver driver_defs Let_def

section \<open>Claims about binding\<close>

text \<open>
  Claim C1, at its failing input. A manager bound to application 0 connects to \<^verbatim>\<open>ks\<close>
  and is then bound to application 2, whose node is another host. \<^verbatim>\<open>init_app\<close> clears
  the cluster handle, but the session cache still holds the session of \<^verbatim>\<open>ks\<close>, and
  the next \<^verbatim>\<open>connect('ks')\<close> returns that session, which belongs to the cluster of the
  old host, instead of constructing a fresh one.
\<close>

theorem rebind_keeps_cached_session:
  "fst (connect (Some ''ks'') None (bound 0)) = Inr (Some 1)
   \<and> fst (init_app 2 connected) = Inr ()
   \<and> nodes (self (rebound 2)) = [''cassandra.example.com'']
   \<and> cluster (self (rebound 2)) = None
   \<and> CassandraCluster__session (self (rebound 2)) ''ks'' = Some 1
   \<and> fst (connect (Some ''ks'') None (rebound 2)) = Inr (Some 1)
   \<and> cluster (self (snd (connect (Some ''ks'') None (rebound 2)))) = Some 2
   \<and> map_option session_cluster
        (sessions (driver (snd (connect (Some ''ks'') None (rebound 2)))) 1) = Some 0
   \<and> map_option contact_points
        (clusters (driver (snd (connect (Some ''ks'') None (rebound 2)))) 0) = Some [''localhost'']"
proof -
  have first: "fst (connect (Some ''ks'') None (bound 0)) = Inr (Some 1)"
    by (simp add: connect_bound_0)
  have rest: "nodes (self (rebound 2)) = [''cassandra.example.com'']
   \<and> cluster (self (rebound 2)) = None
   \<and> CassandraCluster__session (self (rebound 2)) ''ks'' = Some 1
   \<and> fst (connect (Some ''ks'') None (rebound 2)) = Inr (Some 1)
   \<and> cluster (self (snd (connect (Some ''ks'') None (rebound 2)))) = Some 2
   \<and> map_option session_cluster
        (sessions (driver (snd (connect (Some ''ks'') None (rebound 2)))) 1) = Some 0
   \<and> map_option contact_points
        (clusters (driver (snd (connect (Some ''ks'') None (rebound 2)))) 0) = Some [''localhost'']"
    by (simp add: connect_eval rebound_2_self rebound_state connected_driver)
  from first rebound_state(1) [of 2] rest show ?thesis by blast
qed

text \<open>
  Claim C7. When \<^verbatim>\<open>CASSANDRA_NODES\<close> is one string, \<^verbatim>\<open>init_app\<close> makes the
  manager's node list the list of that one string, and writes that list back to the
  configuration; when it is a list, the manager's node list is that list, unchanged.
\<close>

theorem init_app_normalizes_nodes:
  "(CASSANDRA_NODES (config (apps s a)) = Some (NodesStr x) \<longrightarrow>
      nodes (self (snd (init_app a s))) = [x]
      \<and> CASSANDRA_NODES (config (apps (snd (init_app a s)) a)) = Some (NodesList [x]))
   \<and> (CASSANDRA_NODES (config (apps s a)) = Some (NodesList xs) \<longrightarrow>
      nodes (self (snd (init_app a s))) = xs
      \<and> CASSANDRA_NODES (config (apps (snd (init_app a s)) a)) = Some (NodesList xs))"
  by (simp add: init_app_self init_app_config setdefault_def)

text \<open>
  The two configurations of \<^verbatim>\<open>test_init\<close>: a node given as a string, and a list of
  one node.
\<close>

theorem init_app_normalizes_nodes_witness:
  "CASSANDRA_NODES (config (apps start 2)) = Some (NodesStr ''cassandra.example.com'')
   \<and> nodes (self (snd (init_app 2 start))) = [''cassandra.example.com'']
   \<and> CASSANDRA_NODES (config (apps start 4)) = Some (NodesList [''cassandra.example.org''])
   \<and> nodes (self (snd (init_app 4 start))) = [''cassandra.example.org'']"
proof -
  have c2: "CASSANDRA_NODES (config (apps start 2)) = Some (NodesStr ''cassandra.example.com'')"
    by (simp add: start_def example_apps_def Flask_def no_config_def)
  have c4: "CASSANDRA_NODES (config (apps start 4)) = Some (NodesList [''cassandra.example.org''])"
    by (simp add: start_def example_apps_def Flask_def no_config_def)
  from init_app_normalizes_nodes [of start 2 "''cassandra.example.com''" "[]"]
    init_app_normalizes_nodes [of start 4 "[]" "[''cassandra.example.org'']"] c2 c4
  show ?thesis by simp
qed

section \<open>Claims about execute_prepared\<close>

text \<open>
  Claim C2, at its failing inputs. On the manager bound to the empty configuration,
  \<^verbatim>\<open>execute_prepared('q', 'ks', query)\<close> compiles the statement and caches it under
  \<^verbatim>\<open>ks\<close> and \<^verbatim>\<open>q\<close>, then raises \<^verbatim>\<open>KeyError('q')\<close> and executes nothing. With
  the query name \<^verbatim>\<open>ks\<close>, the name of the keyspace, the call returns the driver's
  result, but what it passed to \<^verbatim>\<open>Session.execute\<close> is the table of the keyspace
  \<^verbatim>\<open>ks\<close>, not the statement cached in it.
\<close>

theorem execute_prepared_looks_up_by_name_only:
  "fst (execute_prepared ''q'' (Some ''ks'') (Some ''SELECT * FROM t'') [] (bound 0))
     = Inl (KeyError (Some ''q''))
   \<and> cached_statement
        (snd (execute_prepared ''q'' (Some ''ks'') (Some ''SELECT * FROM t'') [] (bound 0)))
        (Some ''ks'') ''q'' = Some 2
   \<and> executed (driver
        (snd (execute_prepared ''q'' (Some ''ks'') (Some ''SELECT * FROM t'') [] (bound 0)))) = []
   \<and> fst (execute_prepared ''ks'' (Some ''ks'') (Some ''SELECT * FROM t'') [''a''] (bound 0))
     = Inr 3
   \<and> (case executed (driver
          (snd (execute_prepared ''ks'' (Some ''ks'') (Some ''SELECT * FROM t'') [''a''] (bound 0))))
       of [(sid, StatementTable t, ps, r)] \<Rightarrow> sid = 1 \<and> t ''ks'' = Some 2 \<and> ps = [''a''] \<and> r = 3
        | _ \<Rightarrow> False)"
proof -
  obtain sid where sid: "CassandraCluster__session (self connected) ''ks'' = Some sid"
    and e: "execute_prepared ''q'' (Some ''ks'') (Some ''SELECT * FROM t'') [] (bound 0) =
       (let s2 = ensure_table (Some ''ks'') connected;
            s3 = s2\<lparr>driver := snd (session_prepare sid ''SELECT * FROM t'' (driver s2)),
                    self := (self s2)\<lparr>CassandraCluster__queries :=
                      (CassandraCluster__queries (self s2))
                        (Some ''ks'' \<mapsto> (cached_statement s2 (Some ''ks''))
                           (''q'' \<mapsto> next_id (driver s2)))\<rparr>\<rparr>
        in case CassandraCluster__queries (self s3) (Some ''q'') of
             None \<Rightarrow> (Inl (KeyError (Some ''q'')), s3)
           | Some t \<Rightarrow>
               (let (r, d) = session_execute sid (StatementTable t) [] (driver s3)
                in (Inr r, s3\<lparr>driver := d\<rparr>)))"
    using execute_prepared_uncached [OF bound_0_uncached(1,2) _ bound_0_uncached(3),
        of "''q''" "''SELECT * FROM t''" "[]"]
    unfolding connected_snd by auto
  obtain sid' where sid': "CassandraCluster__session (self connected) ''ks'' = Some sid'"
    and e': "execute_prepared ''ks'' (Some ''ks'') (Some ''SELECT * FROM t'') [''a''] (bound 0) =
       (let s2 = ensure_table (Some ''ks'') connected;
            s3 = s2\<lparr>driver := snd (session_prepare sid' ''SELECT * FROM t'' (driver s2)),
                    self := (self s2)\<lparr>CassandraCluster__queries :=
                      (CassandraCluster__queries (self s2))
                        (Some ''ks'' \<mapsto> (cached_statement s2 (Some ''ks''))
                           (''ks'' \<mapsto> next_id (driver s2)))\<rparr>\<rparr>
        in case CassandraCluster__queries (self s3) (Some ''ks'') of
             None \<Rightarrow> (Inl (KeyError (Some ''ks'')), s3)
           | Some t \<Rightarrow>
               (let (r, d) = session_execute sid' (StatementTable t) [''a''] (driver s3)
                in (Inr r, s3\<lparr>driver := d\<rparr>)))"
    using execute_prepared_uncached [OF bound_0_uncached(1,2) _ bound_0_uncached(3),
        of "''ks''" "''SELECT * FROM t''" "[''a'']"]
    unfolding connected_snd by auto
  from sid have [simp]: "sid = 1" by (simp add: connected_self)
  from sid' have [simp]: "sid' = 1" by (simp add: connected_self)
  have a: "fst (execute_prepared ''q'' (Some ''ks'') (Some ''SELECT * FROM t'') [] (bound 0))
     = Inl (KeyError (Some ''q''))"
    by (simp add: e table_eval)
  have b: "cached_statement
        (snd (execute_prepared ''q'' (Some ''ks'') (Some ''SELECT * FROM t'') [] (bound 0)))
        (Some ''ks'') ''q'' = Some 2"
    by (simp add: e table_eval)
  have c: "executed (driver
        (snd (execute_prepared ''q'' (Some ''ks'') (Some ''SELECT * FROM t'') [] (bound 0)))) = []"
    by (simp add: e table_eval)
  have d: "fst (execute_prepared ''ks'' (Some ''ks'') (Some ''SELECT * FROM t'') [''a''] (bound 0))
     = Inr 3"
    by (simp add: e' table_eval)
  have f: "(case executed (driver
          (snd (execute_prepared ''ks'' (Some ''ks'') (Some ''SELECT * FROM t'') [''a''] (bound 0))))
       of [(sid, StatementTable t, ps, r)] \<Rightarrow> sid = 1 \<and> t ''ks'' = Some 2 \<and> ps = [''a''] \<and> r = 3
        | _ \<Rightarrow> False)"
    by (simp add: e' table_eval)
  from a b c d f show ?thesis by blast
qed

text \<open>
  Claim C3, amended. On a bound manager, \<^verbatim>\<open>execute_prepared\<close> raises the
  \<^verbatim>\<open>ValueError\<close> whose message carries the query name if and only if no statement of
  that name is cached under the effective keyspace and no query text is given, and it
  raises no other \<^verbatim>\<open>ValueError\<close>. If a query text is given in that situation and the
  effective keyspace is not empty, the statement is compiled from the text by the session
  of the keyspace and cached under the keyspace and the name. In the error case the
  cached statements, the cached sessions and the configuration of the manager are kept;
  nothing is said of the cluster handle, of a session for the effective keyspace or of
  an empty statement table for it, which the call may have created.
\<close>

theorem execute_prepared_ValueError:
  assumes "app (self s) \<noteq> None"
  shows
    "(fst (execute_prepared n ka q ps s) = Inl (ValueError (no_query_message n))
        \<longleftrightarrow> cached_statement s (py_or ka (keyspace (self s))) n = None \<and> q = None)
     \<and> (\<forall>m. fst (execute_prepared n ka q ps s) = Inl (ValueError m)
            \<longrightarrow> m = no_query_message n)
     \<and> (\<forall>k cql. py_or ka (keyspace (self s)) = Some k \<and> k \<noteq> []
            \<and> cached_statement s (Some k) n = None \<and> q = Some cql \<longrightarrow>
          (\<exists>sid st.
             CassandraCluster__session (self (snd (execute_prepared n ka q ps s))) k = Some sid
           \<and> cached_statement (snd (execute_prepared n ka q ps s)) (Some k) n = Some st
           \<and> statements (driver (snd (execute_prepared n ka q ps s))) st = Some (sid, cql)
           \<and> next_id (driver s) \<le> st))
     \<and> (fst (execute_prepared n ka q ps s) = Inl (ValueError (no_query_message n)) \<longrightarrow>
          cached_statement (snd (execute_prepared n ka q ps s)) = cached_statement s
        \<and> (\<forall>j x. CassandraCluster__session (self s) j = Some x \<longrightarrow>
              CassandraCluster__session (self (snd (execute_prepared n ka q ps s))) j = Some x)
        \<and> app (self (snd (execute_prepared n ka q ps s))) = app (self s)
        \<and> nodes (self (snd (execute_prepared n ka q ps s))) = nodes (self s)
        \<and> port (self (snd (execute_prepared n ka q ps s))) = port (self s)
        \<and> user (self (snd (execute_prepared n ka q ps s))) = user (self s)
        \<and> password (self (snd (execute_prepared n ka q ps s))) = password (self s)
        \<and> keyspace (self (snd (execute_prepared n ka q ps s))) = keyspace (self s))"
proof (intro conjI allI impI)
  show "fst (execute_prepared n ka q ps s) = Inl (ValueError (no_query_message n))
        \<longleftrightarrow> cached_statement s (py_or ka (keyspace (self s))) n = None \<and> q = None"
    by (simp add: execute_prepared_raises_ValueError_iff [OF assms])
next
  fix m assume "fst (execute_prepared n ka q ps s) = Inl (ValueError m)"
  then show "m = no_query_message n"
    by (simp add: execute_prepared_raises_ValueError_iff [OF assms])
next
  fix k cql
  assume a: "py_or ka (keyspace (self s)) = Some k \<and> k \<noteq> []
            \<and> cached_statement s (Some k) n = None \<and> q = Some cql"
  then have q: "q = Some cql" by simp
  from a execute_prepared_compiles [OF assms, of ka k n cql ps]
  show "\<exists>sid st.
             CassandraCluster__session (self (snd (execute_prepared n ka q ps s))) k = Some sid
           \<and> cached_statement (snd (execute_prepared n ka q ps s)) (Some k) n = Some st
           \<and> statements (driver (snd (execute_prepared n ka q ps s))) st = Some (sid, cql)
           \<and> next_id (driver s) \<le> st"
    unfolding q by blast
next
  assume e: "fst (execute_prepared n ka q ps s) = Inl (ValueError (no_query_message n))"
  note st = execute_prepared_error_state [OF assms e]
  show "cached_statement (snd (execute_prepared n ka q ps s)) = cached_statement s"
    by (simp add: st ensure_table_cached_statement connect_cached_statement)
  show "app (self (snd (execute_prepared n ka q ps s))) = app (self s)"
    "nodes (self (snd (execute_prepared n ka q ps s))) = nodes (self s)"
    "port (self (snd (execute_prepared n ka q ps s))) = port (self s)"
    "user (self (snd (execute_prepared n ka q ps s))) = user (self s)"
    "password (self (snd (execute_prepared n ka q ps s))) = password (self s)"
    "keyspace (self (snd (execute_prepared n ka q ps s))) = keyspace (self s)"
    by (simp_all add: st ensure_table_frame connect_frame)
  fix j x assume "CassandraCluster__session (self s) j = Some x"
  then show "CassandraCluster__session (self (snd (execute_prepared n ka q ps s))) j = Some x"
    by (simp add: st ensure_table_frame connect_cache_grows)
qed

text \<open>
  On the manager bound to the empty configuration: \<^verbatim>\<open>execute_prepared('q', 'ks')\<close>
  raises the error, and with a query text the statement is cached.
\<close>

theorem execute_prepared_ValueError_witness:
  "app (self (bound 0)) \<noteq> None
   \<and> py_or (Some ''ks'') (keyspace (self (bound 0))) = Some ''ks''
   \<and> cached_statement (bound 0) (Some ''ks'') ''q'' = None
   \<and> fst (execute_prepared ''q'' (Some ''ks'') None [] (bound 0))
       = Inl (ValueError (no_query_message ''q''))
   \<and> nodes (self (snd (execute_prepared ''q'' (Some ''ks'') None [] (bound 0))))
       = nodes (self (bound 0))
   \<and> (\<exists>sid st.
         CassandraCluster__session
           (self (snd (execute_prepared ''q'' (Some ''ks'') (Some ''SELECT 1'') [] (bound 0))))
           ''ks'' = Some sid
       \<and> cached_statement
           (snd (execute_prepared ''q'' (Some ''ks'') (Some ''SELECT 1'') [] (bound 0)))
           (Some ''ks'') ''q'' = Some st
       \<and> statements
           (driver (snd (execute_prepared ''q'' (Some ''ks'') (Some ''SELECT 1'') [] (bound 0))))
           st = Some (sid, ''SELECT 1''))"
proof -
  note b = bound_0_uncached(1)
  note t1 = execute_prepared_ValueError [OF b, of "''q''" "Some ''ks''" None "[]"]
  note t2 = execute_prepared_ValueError [OF b, of "''q''" "Some ''ks''" "Some ''SELECT 1''" "[]"]
  have e: "fst (execute_prepared ''q'' (Some ''ks'') None [] (bound 0))
       = Inl (ValueError (no_query_message ''q''))"
    using t1 [THEN conjunct1] bound_0_uncached(2) bound_0_uncached(3) [of "''q''"] by simp
  have n: "nodes (self (snd (execute_prepared ''q'' (Some ''ks'') None [] (bound 0))))
       = nodes (self (bound 0))"
    using t1 [THEN conjunct2, THEN conjunct2, THEN conjunct2, THEN mp, OF e] by blast
  have h: "py_or (Some ''ks'') (keyspace (self (bound 0))) = Some ''ks'' \<and> ''ks'' \<noteq> []
     \<and> cached_statement (bound 0) (Some ''ks'') ''q'' = None
     \<and> Some ''SELECT 1'' = Some ''SELECT 1''"
    using bound_0_uncached(2) bound_0_uncached(3) [of "''q''"] by simp
  note c = t2 [THEN conjunct2, THEN conjunct2, THEN conjunct1, THEN spec, THEN spec, THEN mp,
      OF h]
  have c': "\<exists>sid st.
         CassandraCluster__session
           (self (snd (execute_prepared ''q'' (Some ''ks'') (Some ''SELECT 1'') [] (bound 0))))
           ''ks'' = Some sid
       \<and> cached_statement
           (snd (execute_prepared ''q'' (Some ''ks'') (Some ''SELECT 1'') [] (bound 0)))
           (Some ''ks'') ''q'' = Some st
       \<and> statements
           (driver (snd (execute_prepared ''q'' (Some ''ks'') (Some ''SELECT 1'') [] (bound 0))))
           st = Some (sid, ''SELECT 1'')"
    using c by blast
  show ?thesis
    by (intro conjI) (rule b bound_0_uncached(2) bound_0_uncached(3) e n c')+
qed

text \<open>
  Claim C3 as stated fails. The call that raises the \<^verbatim>\<open>ValueError\<close> has connected
  first, so the manager has a cluster handle and a cached session for \<^verbatim>\<open>ks\<close> that it
  had not before. With a query text and no effective keyspace there is no session to
  compile it, and the call raises \<^verbatim>\<open>AttributeError\<close> and caches nothing. On a manager
  that was never bound, the call raises \<^verbatim>\<open>AttributeError\<close> where the claim has the
  \<^verbatim>\<open>ValueError\<close>.
\<close>

theorem execute_prepared_ValueError_counterexample:
  "fst (execute_prepared ''q'' (Some ''ks'') None [] (bound 0))
     = Inl (ValueError (no_query_message ''q''))
   \<and> cluster (self (bound 0)) = None
   \<and> cluster (self (snd (execute_prepared ''q'' (Some ''ks'') None [] (bound 0)))) = Some 0
   \<and> CassandraCluster__session (self (bound 0)) ''ks'' = None
   \<and> CassandraCluster__session
        (self (snd (execute_prepared ''q'' (Some ''ks'') None [] (bound 0)))) ''ks'' = Some 1
   \<and> self (snd (execute_prepared ''q'' (Some ''ks'') None [] (bound 0))) \<noteq> self (bound 0)
   \<and> fst (execute_prepared ''q'' None (Some ''SELECT 1'') [] (bound 0))
       = Inl (AttributeError ''prepare'')
   \<and> cached_statement (snd (execute_prepared ''q'' None (Some ''SELECT 1'') [] (bound 0)))
        None ''q'' = None
   \<and> cached_statement unbound (Some ''ks'') ''q'' = None
   \<and> fst (execute_prepared ''q'' (Some ''ks'') None [] unbound)
       = Inl (AttributeError ''logger'')"
proof -
  have c: "cluster (self (snd (execute_prepared ''q'' (Some ''ks'') None [] (bound 0)))) = Some 0"
    "CassandraCluster__session
        (self (snd (execute_prepared ''q'' (Some ''ks'') None [] (bound 0)))) ''ks'' = Some 1"
    by (simp_all add: execute_prepared_bound_0_error ensure_table_frame connected_self)
  have b: "cluster (self (bound 0)) = None"
    "CassandraCluster__session (self (bound 0)) ''ks'' = None"
    by (simp_all add: bound_0_self)
  from c(1) b(1)
  have d: "self (snd (execute_prepared ''q'' (Some ''ks'') None [] (bound 0))) \<noteq> self (bound 0)"
    by (metis option.distinct(1))
  have n: "connect None None (bound 0) = (Inr None, snd (connect None None (bound 0)))"
    by (rule connect_pair) (simp_all add: connect_eval bound_0_self)
  have ns: "self (snd (connect None None (bound 0))) = (self (bound 0))\<lparr>cluster := Some 0\<rparr>"
    by (simp add: connect_eval bound_0_self bound_state start_def)
  have p: "fst (execute_prepared ''q'' None (Some ''SELECT 1'') [] (bound 0))
       = Inl (AttributeError ''prepare'')
   \<and> cached_statement (snd (execute_prepared ''q'' None (Some ''SELECT 1'') [] (bound 0)))
        None ''q'' = None"
  proof -
    define s1 where "s1 = snd (connect None None (bound 0))"
    define s2 where "s2 = ensure_table None s1"
    have k1: "py_or None (keyspace (self (bound 0))) = None"
      by (simp add: bound_0_self python_defs)
    have c1: "connect (py_or None (keyspace (self (bound 0)))) None (bound 0) = (Inr None, s1)"
      using n by (simp add: k1 s1_def)
    have self2: "self s2 = (self (bound 0))
        \<lparr>cluster := Some 0, CassandraCluster__queries := [None \<mapsto> Map.empty]\<rparr>"
      by (simp add: s2_def s1_def ensure_table_def ns bound_0_self)
    have k2: "py_or None (keyspace (self s2)) = None"
      by (simp add: self2 bound_0_self python_defs)
    have c2: "connect (py_or None (keyspace (self s2))) None s2 = (Inr None, s2)"
      unfolding k2 by (simp add: connect_def self2 bound_0_self python_defs)
    have cs: "cached_statement (bound 0) None ''q'' = None" "cached_statement s2 None ''q'' = None"
      by (simp_all add: cached_statement_def self2 bound_0_self)
    have et: "ensure_table None s2 = s2"
      by (simp add: s2_def ensure_table_idem)
    have pq: "prepare_query ''q'' ''SELECT 1'' None False s2 = (Inl (AttributeError ''prepare''), s2)"
      by (simp add: prepare_query_bound [OF c2] k2 cs et)
    have "execute_prepared ''q'' None (Some ''SELECT 1'') [] (bound 0)
        = (Inl (AttributeError ''prepare''), s2)"
      by (simp add: execute_prepared_bound [OF c1] k1 cs s2_def [symmetric] pq)
    with cs(2) show ?thesis by simp
  qed
  have u: "cached_statement unbound (Some ''ks'') ''q'' = None
   \<and> fst (execute_prepared ''q'' (Some ''ks'') None [] unbound)
       = Inl (AttributeError ''logger'')"
    by (simp add: execute_prepared_def connect_eval unbound_self unbound_driver start_def
        cached_statement_def)
  from execute_prepared_bound_0_error(1) b c d p u show ?thesis by blast
qed

section \<open>Claims about connect\<close>

text \<open>
  Claim C4, amended. When \<^verbatim>\<open>connect\<close> finds no cluster handle, it constructs one from
  exactly the manager's node list and port, and the handle has a plaintext auth provider
  made from the user and the password if and only if both are set and neither is the
  empty string; otherwise it has none. This holds also when \<^verbatim>\<open>connect\<close> goes on to
  raise.
\<close>

theorem connect_constructs_cluster:
  assumes "cluster (self s) = None"
  shows "cluster (self (snd (connect ka l s))) = Some (next_id (driver s))
     \<and> clusters (driver (snd (connect ka l s))) (next_id (driver s))
         = Some \<lparr>contact_points = nodes (self s), cluster_port = port (self s),
                 auth_provider =
                   (if user (self s) \<noteq> None \<and> user (self s) \<noteq> Some []
                       \<and> password (self s) \<noteq> None \<and> password (self s) \<noteq> Some []
                    then Some (PlainTextAuthProvider (user (self s)) (password (self s)))
                    else None),
                 is_shutdown = False\<rparr>"
  using assms
  by (auto simp: connect_def Let_def driver_defs truthy_def split: option.splits)

text \<open>
  The scenario of the specification and of \<^verbatim>\<open>test_connect\<close>: one node given as a
  string, port 1234, a user and a password.
\<close>

theorem connect_constructs_cluster_witness:
  "cluster (self (bound 2)) = None
   \<and> cluster (self (snd (connect None None (bound 2)))) = Some 0
   \<and> clusters (driver (snd (connect None None (bound 2)))) 0
       = Some \<lparr>contact_points = [''cassandra.example.com''], cluster_port = 1234,
               auth_provider = Some (PlainTextAuthProvider (Some ''username'') (Some ''password'')),
               is_shutdown = False\<rparr>"
proof -
  have c: "cluster (self (bound 2)) = None" by (simp add: bound_2_self)
  from connect_constructs_cluster [OF c, of None None] c show ?thesis
    by (simp add: bound_2_self bound_state start_def)
qed

text \<open>
  Claim C4 as stated fails: with the user set to \<^verbatim>\<open>'u'\<close> and the password set to the
  empty string, both are set, and the cluster is constructed without an auth provider.
\<close>

theorem connect_empty_password_counterexample:
  "user (self (bound 3)) = Some ''u'' \<and> password (self (bound 3)) = Some []
   \<and> cluster (self (bound 3)) = None
   \<and> cluster (self (snd (connect None None (bound 3)))) = Some 0
   \<and> map_option auth_provider (clusters (driver (snd (connect None None (bound 3)))) 0)
       = Some None"
  by (simp add: connect_eval bound_3_self bound_state start_def)

text \<open>
  Claim C5. On a bound manager, \<^verbatim>\<open>connect(k)\<close> for a keyspace \<open>k\<close> returns a
  session; a second \<^verbatim>\<open>connect(k)\<close>, with any consistency level, returns the same
  session and leaves the whole state as it is; \<^verbatim>\<open>connect(k')\<close> for another keyspace
  returns another session; and no call of \<^verbatim>\<open>connect\<close> replaces the session that a
  keyspace is cached with.
\<close>

theorem connect_reuses_session_of_keyspace:
  assumes "cache_ok s" and "app (self s) \<noteq> None"
    and "k \<noteq> []" and "k' \<noteq> []" and "k \<noteq> k'"
  shows "\<exists>sid sid'.
      fst (connect (Some k) l1 s) = Inr (Some sid)
    \<and> connect (Some k) l2 (snd (connect (Some k) l1 s))
        = (Inr (Some sid), snd (connect (Some k) l1 s))
    \<and> fst (connect (Some k') l3 (snd (connect (Some k) l1 s))) = Inr (Some sid')
    \<and> sid' \<noteq> sid
    \<and> (\<forall>j x ka l. CassandraCluster__session (self s) j = Some x \<longrightarrow>
          CassandraCluster__session (self (snd (connect ka l s))) j = Some x)"
proof -
  define s1 where "s1 = snd (connect (Some k) l1 s)"
  define s2 where "s2 = snd (connect (Some k') l3 s1)"
  have ek: "py_or (Some k) (keyspace (self t)) = Some k" for t :: state
    using assms(3) by (simp add: py_or_def truthy_def)
  have ek': "py_or (Some k') (keyspace (self t)) = Some k'" for t :: state
    using assms(4) by (simp add: py_or_def truthy_def)
  have b1: "app (self s1) \<noteq> None"
    using assms(2) by (simp add: s1_def connect_frame)
  obtain r where r: "fst (connect (Some k) l1 s) = Inr r"
    using connect_bound_ok [OF assms(2)] by blast
  have rc: "r = CassandraCluster__session (self s1) k"
    using connect_result_cached [OF r] assms(3) by (simp add: ek s1_def)
  have "r \<noteq> None"
  proof (cases "CassandraCluster__session (self s) k")
    case None
    from connect_miss [OF assms(2) ek assms(3) None, of l1] rc show ?thesis
      by (auto simp: s1_def)
  next
    case (Some x)
    from connect_cache_grows [OF Some, of "Some k" l1] rc show ?thesis by (simp add: s1_def)
  qed
  then obtain sid where sid: "r = Some sid" by auto
  have c1: "CassandraCluster__session (self s1) k = Some sid" using rc sid by simp
  obtain cl where cl: "cluster (self s1) = Some cl"
    using connect_cluster_exists [of "Some k" l1 s] by (auto simp: s1_def)
  have second: "connect (Some k) l2 s1 = (Inr (Some sid), s1)"
    by (rule connect_hit [OF cl ek assms(3) c1])
  obtain r' where r': "fst (connect (Some k') l3 s1) = Inr r'"
    using connect_bound_ok [OF b1] by blast
  have rc': "r' = CassandraCluster__session (self s2) k'"
    using connect_result_cached [OF r'] assms(4) by (simp add: ek' s2_def)
  have "r' \<noteq> None"
  proof (cases "CassandraCluster__session (self s1) k'")
    case None
    from connect_miss [OF b1 ek' assms(4) None, of l3] rc' show ?thesis
      by (auto simp: s2_def)
  next
    case (Some x)
    from connect_cache_grows [OF Some, of "Some k'" l3] rc' show ?thesis by (simp add: s2_def)
  qed
  then obtain sid' where sid': "r' = Some sid'" by auto
  have c2': "CassandraCluster__session (self s2) k' = Some sid'" using rc' sid' by simp
  have c2: "CassandraCluster__session (self s2) k = Some sid"
    using connect_cache_grows [OF c1, of "Some k'" l3] by (simp add: s2_def)
  have ok2: "cache_ok s2"
    unfolding s2_def s1_def by (intro connect_cache_ok assms(1))
  have "sid' \<noteq> sid"
  proof
    assume "sid' = sid"
    with ok2 c2 c2' have "k = k'" by (auto intro: cache_ok_inj)
    with assms(5) show False by simp
  qed
  with r sid second r' sid' show ?thesis
    unfolding s1_def [symmetric] by (auto simp: connect_cache_grows)
qed

text \<open>
  The scenario of \<^verbatim>\<open>test_connect\<close>: keyspaces \<^verbatim>\<open>keyspace\<close> and \<^verbatim>\<open>new_keyspace\<close>.
\<close>

theorem connect_reuses_session_of_keyspace_witness:
  "cache_ok (bound 0) \<and> app (self (bound 0)) \<noteq> None
   \<and> fst (connect (Some ''keyspace'') None (bound 0)) = Inr (Some 1)
   \<and> connect (Some ''keyspace'') (Some 4) (snd (connect (Some ''keyspace'') None (bound 0)))
        = (Inr (Some 1), snd (connect (Some ''keyspace'') None (bound 0)))
   \<and> fst (connect (Some ''new_keyspace'') None (snd (connect (Some ''keyspace'') None (bound 0))))
        = Inr (Some 2)"
proof -
  have b: "app (self (bound 0)) \<noteq> None" by (simp add: bound_0_self)
  have v1: "fst (connect (Some ''keyspace'') None (bound 0)) = Inr (Some 1)"
    by (simp add: connect_eval bound_0_self bound_state start_def)
  have s1: "CassandraCluster__session (self (snd (connect (Some ''keyspace'') None (bound 0))))
      = [''keyspace'' \<mapsto> 1]"
    "cluster (self (snd (connect (Some ''keyspace'') None (bound 0)))) = Some 0"
    "app (self (snd (connect (Some ''keyspace'') None (bound 0)))) = Some 0"
    "keyspace (self (snd (connect (Some ''keyspace'') None (bound 0)))) = None"
    "next_id (driver (snd (connect (Some ''keyspace'') None (bound 0)))) = 2"
    by (simp_all add: connect_eval bound_0_self bound_state start_def)
  have v2: "fst (connect (Some ''new_keyspace'') None
      (snd (connect (Some ''keyspace'') None (bound 0)))) = Inr (Some 2)"
    by (simp add: connect_def [of _ _ "snd (connect (Some ''keyspace'') None (bound 0))"]
        Let_def driver_defs python_defs s1)
  from connect_reuses_session_of_keyspace [OF bound_cache_ok b,
      of "''keyspace''" "''new_keyspace''" None "Some 4" None] v1 v2 bound_cache_ok b
  show ?thesis by auto
qed

text \<open>
  Claim C6. On a manager with no default keyspace (its \<^verbatim>\<open>keyspace\<close> is \<^verbatim>\<open>None\<close> or
  empty), \<^verbatim>\<open>connect()\<close> without a keyspace argument raises nothing and returns
  \<^verbatim>\<open>None\<close>, for any consistency level, and the manager has a cluster handle afterwards.
\<close>

theorem connect_without_keyspace_is_None:
  assumes "\<not> truthy (keyspace (self s))"
  shows "fst (connect None l s) = Inr None \<and> cluster (self (snd (connect None l s))) \<noteq> None"
proof -
  from assms have "\<not> truthy (py_or None (keyspace (self s)))"
    by (simp add: py_or_def truthy_def)
  then show ?thesis
    by (simp add: connect_no_keyspace connect_cluster_exists)
qed

text \<open>
  The manager bound to an application with no configuration has no default keyspace and
  no cluster handle yet.
\<close>

theorem connect_without_keyspace_is_None_witness:
  "\<not> truthy (keyspace (self (bound 0))) \<and> cluster (self (bound 0)) = None
   \<and> fst (connect None None (bound 0)) = Inr None
   \<and> cluster (self (snd (connect None None (bound 0)))) \<noteq> None"
proof -
  have k: "\<not> truthy (keyspace (self (bound 0)))"
    by (simp add: bound_0_self truthy_def)
  have c: "cluster (self (bound 0)) = None"
    by (simp add: bound_0_self)
  from k c connect_without_keyspace_is_None [OF k, of None] show ?thesis by simp
qed

text \<open>
  Claim C8, at its failing input. After \<^verbatim>\<open>connect('ks')\<close> and a second
  \<^verbatim>\<open>init_app\<close>, the session of \<^verbatim>\<open>ks\<close> is still cached while the manager has no
  cluster handle; \<^verbatim>\<open>connect('ks', 5)\<close> then returns the cached session and, on the way,
  constructs a new cluster handle: the call does modify the cluster handle. (With a
  cluster handle present, \<open>connect_hit\<close> shows that the call changes nothing.)
\<close>

theorem connect_after_rebind_builds_cluster:
  "CassandraCluster__session (self (rebound 0)) ''ks'' = Some 1
   \<and> cluster (self (rebound 0)) = None
   \<and> fst (connect (Some ''ks'') (Some 5) (rebound 0)) = Inr (Some 1)
   \<and> cluster (self (snd (connect (Some ''ks'') (Some 5) (rebound 0)))) = Some 2"
  by (simp add: connect_eval rebound_0_self rebound_state connected_driver)

text \<open>
  Claim C9, amended. On a bound manager, for a keyspace \<open>k\<close> with no cached session,
  \<^verbatim>\<open>connect(k, level)\<close> has the cluster handle create a new session bound to \<open>k\<close>,
  stores it in the cache under \<open>k\<close> and returns it; the session's consistency level is
  set to \<open>level\<close> when a level other than 0 was supplied, and is left as the driver
  created it when none or the level 0 was supplied.
\<close>

theorem connect_creates_session:
  assumes "app (self s) \<noteq> None" and "k \<noteq> []"
    and "CassandraCluster__session (self s) k = None"
  shows "\<exists>sid c. fst (connect (Some k) l s) = Inr (Some sid)
     \<and> next_id (driver s) \<le> sid
     \<and> cluster (self (snd (connect (Some k) l s))) = Some c
     \<and> CassandraCluster__session (self (snd (connect (Some k) l s)))
         = (CassandraCluster__session (self s))(k \<mapsto> sid)
     \<and> sessions (driver (snd (connect (Some k) l s))) sid
         = Some \<lparr>session_cluster = c, session_keyspace = k,
                 session_default_consistency_level = (if l = Some 0 then None else l)\<rparr>"
proof -
  have ek: "py_or (Some k) (keyspace (self s)) = Some k"
    using assms(2) by (simp add: py_or_def truthy_def)
  have lv: "(if truthy_level l then l else None) = (if l = Some 0 then None else l)"
    by (cases l) (simp_all add: truthy_level_def)
  from connect_miss [OF assms(1) ek assms(2,3), of l]
  obtain sid c where h:
    "connect (Some k) l s = (Inr (Some sid), snd (connect (Some k) l s))"
    "next_id (driver s) \<le> sid"
    "cluster (self (snd (connect (Some k) l s))) = Some c"
    "CassandraCluster__session (self (snd (connect (Some k) l s)))
       = (CassandraCluster__session (self s))(k \<mapsto> sid)"
    "sessions (driver (snd (connect (Some k) l s))) sid
       = Some \<lparr>session_cluster = c, session_keyspace = k,
               session_default_consistency_level = (if l = Some 0 then None else l)\<rparr>"
    unfolding lv by blast
  from h(1) have "fst (connect (Some k) l s) = Inr (Some sid)"
    by (metis fst_conv)
  with h(2-5) show ?thesis by blast
qed

text \<open>
  A first \<^verbatim>\<open>connect('ks', 4)\<close> on the manager bound to the empty configuration.
\<close>

theorem connect_creates_session_witness:
  "app (self (bound 0)) \<noteq> None \<and> CassandraCluster__session (self (bound 0)) ''ks'' = None
   \<and> fst (connect (Some ''ks'') (Some 4) (bound 0)) = Inr (Some 1)
   \<and> CassandraCluster__session (self (snd (connect (Some ''ks'') (Some 4) (bound 0)))) ''ks''
       = Some 1
   \<and> sessions (driver (snd (connect (Some ''ks'') (Some 4) (bound 0)))) 1
       = Some \<lparr>session_cluster = 0, session_keyspace = ''ks'',
               session_default_consistency_level = Some 4\<rparr>"
proof -
  have b: "app (self (bound 0)) \<noteq> None" by (simp add: bound_0_self)
  have e: "CassandraCluster__session (self (bound 0)) ''ks'' = None"
    by (simp add: bound_0_self)
  have v: "fst (connect (Some ''ks'') (Some 4) (bound 0)) = Inr (Some 1)"
    "cluster (self (snd (connect (Some ''ks'') (Some 4) (bound 0)))) = Some 0"
    by (simp_all add: connect_eval bound_0_self bound_state start_def)
  from connect_creates_session [OF b _ e, of "Some 4"] b e v show ?thesis by auto
qed

text \<open>
  Claim C9 as stated fails: \<^verbatim>\<open>connect('ks', 0)\<close> supplies the level 0 (the driver's
  \<^verbatim>\<open>ConsistencyLevel.ANY\<close>), and the new session's level is not set; and on a manager
  that was never bound, \<^verbatim>\<open>connect('ks', 4)\<close> raises \<^verbatim>\<open>AttributeError\<close>, since
  \<^verbatim>\<open>self.app\<close> is \<^verbatim>\<open>None\<close>, instead of returning a session.
\<close>

theorem connect_creates_session_counterexample:
  "app (self (bound 0)) \<noteq> None \<and> CassandraCluster__session (self (bound 0)) ''ks'' = None
   \<and> fst (connect (Some ''ks'') (Some 0) (bound 0)) = Inr (Some 1)
   \<and> map_option session_default_consistency_level
        (sessions (driver (snd (connect (Some ''ks'') (Some 0) (bound 0)))) 1) = Some None
   \<and> CassandraCluster__session (self unbound) ''ks'' = None
   \<and> fst (connect (Some ''ks'') (Some 4) unbound) = Inl (AttributeError ''logger'')"
  by (simp add: connect_eval bound_0_self bound_state unbound_self unbound_driver start_def)

section \<open>Claims about the context\<close>

text \<open>
  Claim C10. With no active context, \<^verbatim>\<open>connection\<close> returns \<^verbatim>\<open>None\<close> and leaves
  the whole state as it is: no cluster handle is constructed. With an active context
  that has a \<^verbatim>\<open>cassandra_cluster\<close>, it returns that and changes nothing. With an
  active context that has none, on a manager that is bound or has no default keyspace,
  it connects, stores the manager's cluster handle in the context and returns it.
\<close>

theorem connection_needs_context:
  "(stack s = [] \<longrightarrow> connection s = (Inr None, s))
   \<and> (stack s = ctx # rest \<and> cassandra_cluster ctx = Some v \<longrightarrow> connection s = (Inr v, s))
   \<and> (stack s = ctx # rest \<and> cassandra_cluster ctx = None
        \<and> (app (self s) \<noteq> None \<or> \<not> truthy (keyspace (self s))) \<longrightarrow>
        (\<exists>c. fst (connection s) = Inr (Some c)
           \<and> cluster (self (snd (connection s))) = Some c
           \<and> stack (snd (connection s)) = ctx\<lparr>cassandra_cluster := Some (Some c)\<rparr> # rest))"
proof (intro conjI impI)
  assume "stack s = []"
  then show "connection s = (Inr None, s)" by (simp add: connection_def)
next
  assume "stack s = ctx # rest \<and> cassandra_cluster ctx = Some v"
  then show "connection s = (Inr v, s)" by (simp add: connection_def)
next
  assume a: "stack s = ctx # rest \<and> cassandra_cluster ctx = None
        \<and> (app (self s) \<noteq> None \<or> \<not> truthy (keyspace (self s)))"
  have "\<exists>r. fst (connect None None s) = Inr r"
  proof (cases "app (self s) \<noteq> None")
    case True
    then show ?thesis by (rule connect_bound_ok)
  next
    case False
    with a have "\<not> truthy (py_or None (keyspace (self s)))"
      by (simp add: py_or_def truthy_def)
    then show ?thesis by (simp add: connect_no_keyspace)
  qed
  then obtain r where r: "fst (connect None None s) = Inr r" by blast
  obtain c where c: "cluster (self (snd (connect None None s))) = Some c"
    using connect_cluster_exists [of None None s] by auto
  from a r c show "\<exists>c. fst (connection s) = Inr (Some c)
           \<and> cluster (self (snd (connection s))) = Some c
           \<and> stack (snd (connection s)) = ctx\<lparr>cassandra_cluster := Some (Some c)\<rparr> # rest"
    by (cases "connect None None s") (simp add: connection_def)
qed

text \<open>
  The bound manager with no context, with a new context, and with a context that holds
  a cluster already.
\<close>

theorem connection_needs_context_witness:
  "stack (bound 0) = [] \<and> connection (bound 0) = (Inr None, bound 0)
   \<and> app (self (bound 0)) \<noteq> None
   \<and> (\<exists>c. fst (connection ((bound 0)\<lparr>stack := [\<lparr>cassandra_cluster = None\<rparr>]\<rparr>)) = Inr (Some c)
         \<and> stack (snd (connection ((bound 0)\<lparr>stack := [\<lparr>cassandra_cluster = None\<rparr>]\<rparr>)))
             = [\<lparr>cassandra_cluster = Some (Some c)\<rparr>])
   \<and> connection ((bound 0)\<lparr>stack := [\<lparr>cassandra_cluster = Some (Some 7)\<rparr>]\<rparr>)
       = (Inr (Some 7), (bound 0)\<lparr>stack := [\<lparr>cassandra_cluster = Some (Some 7)\<rparr>]\<rparr>)"
proof -
  have e: "stack (bound 0) = []" by (rule bound_state)
  have b: "app (self (bound 0)) \<noteq> None" by (simp add: bound_0_self)
  note t1 = connection_needs_context [of "bound 0" "\<lparr>cassandra_cluster = None\<rparr>" "[]" None,
      THEN conjunct1, THEN mp, OF e]
  have h2: "stack ((bound 0)\<lparr>stack := [\<lparr>cassandra_cluster = None\<rparr>]\<rparr>)
       = \<lparr>cassandra_cluster = None\<rparr> # []
     \<and> cassandra_cluster \<lparr>cassandra_cluster = None\<rparr> = None
     \<and> (app (self ((bound 0)\<lparr>stack := [\<lparr>cassandra_cluster = None\<rparr>]\<rparr>)) \<noteq> None
        \<or> \<not> truthy (keyspace (self ((bound 0)\<lparr>stack := [\<lparr>cassandra_cluster = None\<rparr>]\<rparr>))))"
    using b by simp
  note t2 = connection_needs_context [of "(bound 0)\<lparr>stack := [\<lparr>cassandra_cluster = None\<rparr>]\<rparr>"
      "\<lparr>cassandra_cluster = None\<rparr>" "[]" None,
      THEN conjunct2, THEN conjunct2, THEN mp, OF h2]
  have h3: "stack ((bound 0)\<lparr>stack := [\<lparr>cassandra_cluster = Some (Some 7)\<rparr>]\<rparr>)
       = \<lparr>cassandra_cluster = Some (Some 7)\<rparr> # []
     \<and> cassandra_cluster \<lparr>cassandra_cluster = Some (Some 7)\<rparr> = Some (Some 7)"
    by simp
  note t3 = connection_needs_context
      [of "(bound 0)\<lparr>stack := [\<lparr>cassandra_cluster = Some (Some 7)\<rparr>]\<rparr>"
      "\<lparr>cassandra_cluster = Some (Some 7)\<rparr>" "[]" "Some 7",
      THEN conjunct2, THEN conjunct1, THEN mp, OF h3]
  have t2': "\<exists>c. fst (connection ((bound 0)\<lparr>stack := [\<lparr>cassandra_cluster = None\<rparr>]\<rparr>))
           = Inr (Some c)
         \<and> stack (snd (connection ((bound 0)\<lparr>stack := [\<lparr>cassandra_cluster = None\<rparr>]\<rparr>)))
             = [\<lparr>cassandra_cluster = Some (Some c)\<rparr>]"
    using t2 by auto
  show ?thesis
    by (intro conjI) (rule e b t1 t2' t3)+
qed

end
